theory Spec2Isabelle
  imports Main
begin

section \<open>Responses and rows\<close>

text \<open>
  A handler of \<^verbatim>\<open>app/main.py\<close> either returns a value or raises. \<^verbatim>\<open>HTTPException\<close>
  carries the status code and the detail string the handler passes to it. Reading an
  attribute of \<^verbatim>\<open>None\<close> (as \<^verbatim>\<open>item.cart.user_id\<close> does when the cart row is missing)
  raises Python's \<^verbatim>\<open>AttributeError\<close>. Reading a relationship that is not loaded yet
  on a row that has been deleted and committed raises SQLAlchemy's
  \<^verbatim>\<open>DetachedInstanceError\<close>. The last two are not \<^verbatim>\<open>HTTPException\<close>s: the client gets
  a 500.
\<close>

datatype failure =
  HTTPException (status_code: int) (detail: string) | AttributeError | DetachedInstanceError

text \<open>
  How the relationship \<^verbatim>\<open>CartItem.cart\<close> is loaded is declared in the \<^verbatim>\<open>models\<close>
  module, which is absent; it is a parameter of the handler that depends on it. \<open>Lazy\<close>
  is SQLAlchemy's default: the cart is read from the database when \<^verbatim>\<open>item.cart\<close> is
  first evaluated. \<open>Eager\<close>: the cart is loaded together with the item.
\<close>

datatype loading = Lazy | Eager

text \<open>
  The rows of the tables. Python integers are unbounded, hence \<open>int\<close>; roles are the
  strings the handlers compare with (\<^verbatim>\<open>"admin"\<close>, \<^verbatim>\<open>"seller"\<close>, \<^verbatim>\<open>"customer"\<close>).
\<close>

record user =
  u_id :: int
  u_email :: string
  u_password :: string
  u_role :: string

record address =
  a_id :: int
  a_user_id :: int
  a_fields :: string

record product =
  p_id :: int
  p_name :: string
  p_price :: int
  p_category_id :: int
  p_seller_id :: "int option"

record cart =
  c_id :: int
  c_user_id :: int

record cart_item =
  ci_id :: int
  ci_cart_id :: int
  ci_product_id :: int
  ci_quantity :: int

record order_item =
  oi_product_id :: int
  oi_quantity :: int

record order =
  o_id :: int
  o_user_id :: int
  o_items :: "order_item list"
  o_status :: string

record wishlist =
  w_id :: int
  w_user_id :: int
  w_product_id :: int

text \<open>
  The database the session \<^verbatim>\<open>db\<close> reads and writes: one list of rows per table, in
  insertion order (\<^verbatim>\<open>.first()\<close> is the first match).

  \<^verbatim>\<open>get_db\<close> in \<^verbatim>\<open>app/main.py\<close> yields the session and only closes it: it never commits
  and never rolls back. So every write that is to persist is committed inside the
  \<^verbatim>\<open>crud\<close> function that makes it, and an exception a handler raises after such a call
  does not undo it. Accordingly each mutating \<^verbatim>\<open>crud\<close> function below returns the
  database as committed, and a handler returns its response together with the database
  it leaves behind.
\<close>

record db =
  users :: "user list"
  addresses :: "address list"
  products :: "product list"
  carts :: "cart list"
  cart_items :: "cart_item list"
  orders :: "order list"
  wishlists :: "wishlist list"

text \<open>Primary keys are assigned by the store: one more than the largest key in use.\<close>

definition next_id :: "int list \<Rightarrow> int" where
  "next_id ids = fold max ids 0 + 1"

section \<open>Users\<close>

record user_create =
  uc_email :: string
  uc_password :: string

text \<open>
  \<^verbatim>\<open>schemas.UserUpdate\<close>: the handlers read only its optional \<^verbatim>\<open>role\<close>; no other
  column of it is named in the source or in the specification.
\<close>

record user_update =
  upd_role :: "string option"

text \<open>Modelled from the spec: \<^verbatim>\<open>crud.get_user\<close>, the user row with the given id, if any.\<close>

definition crud_get_user :: "db \<Rightarrow> int \<Rightarrow> user option" where
  "crud_get_user d user_id = find (\<lambda>u. u_id u = user_id) (users d)"

text \<open>Modelled from the spec: \<^verbatim>\<open>crud.get_user_by_email\<close>, the user row registered
  with the given email, if any.\<close>

definition crud_get_user_by_email :: "db \<Rightarrow> string \<Rightarrow> user option" where
  "crud_get_user_by_email d email = find (\<lambda>u. u_email u = email) (users d)"

text \<open>Modelled from the spec: \<^verbatim>\<open>crud.create_user\<close> stores the password hashed and
  gives the new user the default role customer. The hash function of the absent
  \<^verbatim>\<open>crud\<close> module is the parameter \<open>get_password_hash\<close>.\<close>

definition crud_create_user :: "(string \<Rightarrow> string) \<Rightarrow> db \<Rightarrow> user_create \<Rightarrow> user \<times> db" where
  "crud_create_user get_password_hash d uc =
     (let db_user = \<lparr>u_id = next_id (map u_id (users d)), u_email = uc_email uc,
                      u_password = get_password_hash (uc_password uc),
                      u_role = ''customer''\<rparr>
      in (db_user, d\<lparr>users := users d @ [db_user]\<rparr>))"

text \<open>Modelled from the spec: \<^verbatim>\<open>crud.update_user\<close> writes the fields the update
  carries into the user row and returns the row.\<close>

definition crud_update_user :: "db \<Rightarrow> user \<Rightarrow> user_update \<Rightarrow> user \<times> db" where
  "crud_update_user d usr upd =
     (let usr' = (case upd_role upd of None \<Rightarrow> usr | Some r \<Rightarrow> usr\<lparr>u_role := r\<rparr>)
      in (usr', d\<lparr>users := map (\<lambda>u. if u_id u = u_id usr then usr' else u) (users d)\<rparr>))"

text \<open>Modelled from the spec: \<^verbatim>\<open>crud.del_user\<close> deletes the user row with the given
  id and returns it, or returns \<^verbatim>\<open>None\<close> when there is none.\<close>

definition crud_del_user :: "db \<Rightarrow> int \<Rightarrow> user option \<times> db" where
  "crud_del_user d user_id =
     (case crud_get_user d user_id of
        None \<Rightarrow> (None, d)
      | Some db_user \<Rightarrow> (Some db_user, d\<lparr>users := filter (\<lambda>u. u_id u \<noteq> user_id) (users d)\<rparr>))"

text \<open>\<^verbatim>\<open>POST /users/\<close>\<close>

definition create_user :: "(string \<Rightarrow> string) \<Rightarrow> user_create \<Rightarrow> db \<Rightarrow> (failure + user) \<times> db" where
  "create_user get_password_hash usr d =
     (case crud_get_user_by_email d (uc_email usr) of
        Some db_user \<Rightarrow> (Inl (HTTPException 400 ''Email already registered''), d)
      | None \<Rightarrow> (case crud_create_user get_password_hash d usr of (u, d') \<Rightarrow> (Inr u, d')))"

text \<open>\<^verbatim>\<open>PUT /users/{user_id}\<close>\<close>

definition update_user :: "int \<Rightarrow> user_update \<Rightarrow> user \<Rightarrow> db \<Rightarrow> (failure + user) \<times> db" where
  "update_user user_id upd current_user d =
     (if user_id \<noteq> u_id current_user \<and> u_role current_user \<noteq> ''admin''
      then (Inl (HTTPException 403 ''You are not authorized to modify this user''), d)
      else case crud_get_user d user_id of
             None \<Rightarrow> (Inl (HTTPException 404 ''User not found''), d)
           | Some db_user \<Rightarrow>
               (case crud_update_user d db_user upd of (u, d') \<Rightarrow> (Inr u, d')))"

text \<open>\<^verbatim>\<open>DELETE /users/{user_id}\<close>\<close>

definition delete_user :: "int \<Rightarrow> user \<Rightarrow> db \<Rightarrow> (failure + user) \<times> db" where
  "delete_user user_id current_user d =
     (if user_id \<noteq> u_id current_user \<and> u_role current_user \<noteq> ''admin''
      then (Inl (HTTPException 403 ''You are not authorized to delete this user''), d)
      else case crud_del_user d user_id of
             (None, d') \<Rightarrow> (Inl (HTTPException 404 ''User not found''), d')
           | (Some db_user, d') \<Rightarrow> (Inr db_user, d'))"

text \<open>Modelled from the spec: \<^verbatim>\<open>get_current_admin\<close> of the absent \<^verbatim>\<open>auth\<close> module
  lets a requester through when the role is admin and fails with Forbidden otherwise.\<close>

definition get_current_admin :: "user \<Rightarrow> failure + user" where
  "get_current_admin current_user =
     (if u_role current_user = ''admin'' then Inr current_user
      else Inl (HTTPException 403 ''Admin privileges required''))"

text \<open>Modelled from the spec: \<^verbatim>\<open>get_current_seller\<close> of the absent \<^verbatim>\<open>auth\<close> module
  lets a requester through when the role is seller or admin and fails with Forbidden
  otherwise.\<close>

definition get_current_seller :: "user \<Rightarrow> failure + user" where
  "get_current_seller current_user =
     (if u_role current_user = ''seller'' \<or> u_role current_user = ''admin''
      then Inr current_user
      else Inl (HTTPException 403 ''Seller privileges required''))"

text \<open>\<^verbatim>\<open>PUT /admin/users/{user_id}/role\<close>. In Python \<^verbatim>\<open>update.role and ...\<close> is false for
  \<^verbatim>\<open>None\<close> and for the empty string.\<close>

definition admin_update_user_role :: "int \<Rightarrow> user_update \<Rightarrow> user \<Rightarrow> db \<Rightarrow> (failure + user) \<times> db" where
  "admin_update_user_role user_id upd current_user d =
     (case get_current_admin current_user of
        Inl e \<Rightarrow> (Inl e, d)
      | Inr admin \<Rightarrow>
          (case crud_get_user d user_id of
             None \<Rightarrow> (Inl (HTTPException 404 ''User not found''), d)
           | Some db_user \<Rightarrow>
               if (case upd_role upd of
                     None \<Rightarrow> False
                   | Some r \<Rightarrow> r \<noteq> [] \<and> r \<notin> set [''customer'', ''seller'', ''admin''])
               then (Inl (HTTPException 400 ''Invalid role''), d)
               else (case crud_update_user d db_user upd of (u, d') \<Rightarrow> (Inr u, d'))))"

section \<open>Addresses\<close>

text \<open>Modelled from the spec: \<^verbatim>\<open>crud.create_address\<close> stores a new address row for
  the given user.\<close>

definition crud_create_address :: "db \<Rightarrow> int \<Rightarrow> string \<Rightarrow> address \<times> db" where
  "crud_create_address d user_id addr =
     (let db_address = \<lparr>a_id = next_id (map a_id (addresses d)), a_user_id = user_id,
                         a_fields = addr\<rparr>
      in (db_address, d\<lparr>addresses := addresses d @ [db_address]\<rparr>))"

text \<open>Modelled from the spec: \<^verbatim>\<open>crud.get_address\<close>, called with a user id, is the
  address row of that user, if any.\<close>

definition crud_get_address :: "db \<Rightarrow> int \<Rightarrow> address option" where
  "crud_get_address d user_id = find (\<lambda>a. a_user_id a = user_id) (addresses d)"

text \<open>Modelled from the spec: \<^verbatim>\<open>crud.update_address\<close> writes the new fields into the
  given address row.\<close>

definition crud_update_address :: "db \<Rightarrow> address \<Rightarrow> string \<Rightarrow> address \<times> db" where
  "crud_update_address d db_address upd =
     (let a' = db_address\<lparr>a_fields := upd\<rparr>
      in (a', d\<lparr>addresses := map (\<lambda>a. if a_id a = a_id db_address then a' else a) (addresses d)\<rparr>))"

text \<open>\<^verbatim>\<open>POST /addresses/\<close>\<close>

definition add_address :: "int \<Rightarrow> string \<Rightarrow> user \<Rightarrow> db \<Rightarrow> (failure + address) \<times> db" where
  "add_address user_id addr current_user d =
     (if user_id \<noteq> u_id current_user \<and> u_role current_user \<noteq> ''admin''
      then (Inl (HTTPException 403 ''You are not authorized for this action''), d)
      else (case crud_create_address d user_id addr of (a, d') \<Rightarrow> (Inr a, d')))"

text \<open>\<^verbatim>\<open>POST /addresses/{user_id}/update\<close>\<close>

definition update_address :: "int \<Rightarrow> string \<Rightarrow> user \<Rightarrow> db \<Rightarrow> (failure + address) \<times> db" where
  "update_address user_id upd current_user d =
     (if user_id \<noteq> u_id current_user \<and> u_role current_user \<noteq> ''admin''
      then (Inl (HTTPException 403 ''You are not authorized to update another user's address''), d)
      else case crud_get_address d user_id of
             None \<Rightarrow> (Inl (HTTPException 404 ''Address not found''), d)
           | Some db_address \<Rightarrow>
               if a_user_id db_address \<noteq> u_id current_user \<and> u_role current_user \<noteq> ''admin''
               then (Inl (HTTPException 403 ''Not authorized to update this address''), d)
               else (case crud_update_address d db_address upd of (a, d') \<Rightarrow> (Inr a, d')))"

section \<open>Login\<close>

text \<open>
  The payload \<^verbatim>\<open>login\<close> hands to \<^verbatim>\<open>create_access_token\<close>, and the token. The signature
  is not modelled: a token is the payload and the expiry it carries. Time is counted in
  minutes; \<^verbatim>\<open>timedelta(minutes=60)\<close> is \<open>60\<close>.
\<close>

record token_data =
  td_user_id :: int
  td_email :: string
  td_role :: string

record token =
  tok_data :: token_data
  tok_exp :: int

record token_response =
  access_token :: token
  token_type :: string

text \<open>Modelled from the spec: \<^verbatim>\<open>create_access_token\<close> of the absent \<^verbatim>\<open>auth\<close> module
  issues a token that carries the payload and expires \<open>expires_delta\<close> after the moment
  \<open>now\<close> of issuance.\<close>

definition create_access_token :: "int \<Rightarrow> token_data \<Rightarrow> int \<Rightarrow> token" where
  "create_access_token now data expires_delta = \<lparr>tok_data = data, tok_exp = now + expires_delta\<rparr>"

text \<open>\<^verbatim>\<open>POST /login\<close>. \<open>verify_password\<close> stands for \<^verbatim>\<open>crud.verify_password\<close> (plain
  password first, stored hash second); \<open>now\<close> is the clock at the request.\<close>

definition login :: "(string \<Rightarrow> string \<Rightarrow> bool) \<Rightarrow> int \<Rightarrow> string \<Rightarrow> string \<Rightarrow> db
    \<Rightarrow> (failure + token_response) \<times> db" where
  "login verify_password now username password d =
     (case crud_get_user_by_email d username of
        None \<Rightarrow> (Inl (HTTPException 401 ''Incorrect email or password''), d)
      | Some usr \<Rightarrow>
          if \<not> verify_password password (u_password usr)
          then (Inl (HTTPException 401 ''Incorrect email or password''), d)
          else (Inr \<lparr>access_token =
                       create_access_token now
                         \<lparr>td_user_id = u_id usr, td_email = u_email usr, td_role = u_role usr\<rparr> 60,
                     token_type = ''bearer''\<rparr>, d))"

section \<open>Products\<close>

text \<open>\<^verbatim>\<open>schemas.ProductBase\<close>, the request body of the product endpoints. It has a
  \<^verbatim>\<open>seller_id\<close> field: \<^verbatim>\<open>create_product\<close> assigns to it.\<close>

record product_base =
  pb_name :: string
  pb_price :: int
  pb_category_id :: int
  pb_seller_id :: "int option"

text \<open>Modelled from the spec: \<^verbatim>\<open>crud.create_product\<close> stores a new product with the
  body's name, price and category. It receives a seller twice, in the body's
  \<^verbatim>\<open>seller_id\<close> and in its \<^verbatim>\<open>seller_id\<close> argument; which of them it stores is said
  neither by the specification nor by \<^verbatim>\<open>app/main.py\<close>. That choice is the parameter
  \<open>stored_seller_id\<close>, applied to the body's field and to the argument.\<close>

definition crud_create_product ::
    "(int option \<Rightarrow> int option \<Rightarrow> int option) \<Rightarrow> db \<Rightarrow> product_base \<Rightarrow> int option \<Rightarrow> product \<times> db" where
  "crud_create_product stored_seller_id d prd seller_id =
     (let db_product = \<lparr>p_id = next_id (map p_id (products d)), p_name = pb_name prd,
                         p_price = pb_price prd, p_category_id = pb_category_id prd,
                         p_seller_id = stored_seller_id (pb_seller_id prd) seller_id\<rparr>
      in (db_product, d\<lparr>products := products d @ [db_product]\<rparr>))"

text \<open>Modelled from the spec: \<^verbatim>\<open>crud.update_product\<close> returns \<^verbatim>\<open>None\<close> when the
  product does not exist or, a \<^verbatim>\<open>seller_id\<close> being passed, does not belong to that
  seller; otherwise it writes the body's name, price and category into the row.\<close>

definition crud_update_product :: "db \<Rightarrow> int \<Rightarrow> product_base \<Rightarrow> int option \<Rightarrow> product option \<times> db" where
  "crud_update_product d product_id upd seller_id =
     (case find (\<lambda>p. p_id p = product_id) (products d) of
        None \<Rightarrow> (None, d)
      | Some p \<Rightarrow>
          if seller_id \<noteq> None \<and> p_seller_id p \<noteq> seller_id then (None, d)
          else (let p' = p\<lparr>p_name := pb_name upd, p_price := pb_price upd,
                            p_category_id := pb_category_id upd\<rparr>
                in (Some p', d\<lparr>products := map (\<lambda>q. if p_id q = product_id then p' else q)
                                               (products d)\<rparr>)))"

text \<open>Modelled from the spec: \<^verbatim>\<open>crud.delete_product\<close> returns \<^verbatim>\<open>None\<close> when the
  product does not exist or when the requester is not an admin and the product does not
  belong to the requester; otherwise it deletes the row and returns it.\<close>

definition crud_delete_product :: "db \<Rightarrow> int \<Rightarrow> int \<Rightarrow> string \<Rightarrow> product option \<times> db" where
  "crud_delete_product d product_id user_id user_role =
     (case find (\<lambda>p. p_id p = product_id) (products d) of
        None \<Rightarrow> (None, d)
      | Some p \<Rightarrow>
          if user_role \<noteq> ''admin'' \<and> p_seller_id p \<noteq> Some user_id then (None, d)
          else (Some p, d\<lparr>products := filter (\<lambda>q. p_id q \<noteq> product_id) (products d)\<rparr>))"

text \<open>\<^verbatim>\<open>POST /products/\<close>. The body is mutated first (a seller's id is written into
  it), then passed on together with the \<^verbatim>\<open>seller_id\<close> argument.\<close>

definition create_product ::
    "(int option \<Rightarrow> int option \<Rightarrow> int option) \<Rightarrow> product_base \<Rightarrow> user \<Rightarrow> db
      \<Rightarrow> (failure + product) \<times> db" where
  "create_product stored_seller_id prd current_user d =
     (let prd' = (if u_role current_user = ''seller''
                   then prd\<lparr>pb_seller_id := Some (u_id current_user)\<rparr> else prd)
      in case crud_create_product stored_seller_id d prd'
                (if u_role current_user = ''seller'' then Some (u_id current_user) else None) of
           (p, d') \<Rightarrow> (Inr p, d'))"

text \<open>\<^verbatim>\<open>PUT /seller/products/{product_id}\<close>\<close>

definition seller_update_product :: "int \<Rightarrow> product_base \<Rightarrow> user \<Rightarrow> db \<Rightarrow> (failure + product) \<times> db" where
  "seller_update_product product_id product_update current_user d =
     (case get_current_seller current_user of
        Inl e \<Rightarrow> (Inl e, d)
      | Inr seller \<Rightarrow>
          (case crud_update_product d product_id product_update
                  (if u_role seller = ''seller'' then Some (u_id seller) else None) of
             (None, d') \<Rightarrow> (Inl (HTTPException 404 ''Product not found or not authorized''), d')
           | (Some updated_product, d') \<Rightarrow> (Inr updated_product, d')))"

text \<open>\<^verbatim>\<open>DELETE /seller/products/{product_id}\<close>\<close>

definition seller_delete_product :: "int \<Rightarrow> user \<Rightarrow> db \<Rightarrow> (failure + string) \<times> db" where
  "seller_delete_product product_id current_user d =
     (case get_current_seller current_user of
        Inl e \<Rightarrow> (Inl e, d)
      | Inr seller \<Rightarrow>
          (case crud_delete_product d product_id (u_id seller) (u_role seller) of
             (None, d') \<Rightarrow> (Inl (HTTPException 404 ''Product not found or not authorized''), d')
           | (Some deleted_product, d') \<Rightarrow> (Inr ''Product deleted successfully'', d')))"

section \<open>Carts\<close>

record cart_item_base =
  cib_product_id :: int
  cib_quantity :: int

text \<open>Modelled from the spec: \<^verbatim>\<open>crud.get_cart\<close>, the cart of the given user, if any
  (one cart per user).\<close>

definition crud_get_cart :: "db \<Rightarrow> int \<Rightarrow> cart option" where
  "crud_get_cart d user_id = find (\<lambda>c. c_user_id c = user_id) (carts d)"

text \<open>Modelled from the spec: \<^verbatim>\<open>crud.create_cart\<close> creates an empty cart owned by
  the given user.\<close>

definition crud_create_cart :: "db \<Rightarrow> int \<Rightarrow> cart \<times> db" where
  "crud_create_cart d user_id =
     (let crt = \<lparr>c_id = next_id (map c_id (carts d)), c_user_id = user_id\<rparr>
      in (crt, d\<lparr>carts := carts d @ [crt]\<rparr>))"

text \<open>The line items of a cart: the rows of the cart-item table that point to it.\<close>

definition items_of_cart :: "db \<Rightarrow> int \<Rightarrow> cart_item list" where
  "items_of_cart d cart_id = filter (\<lambda>ci. ci_cart_id ci = cart_id) (cart_items d)"

text \<open>The relationship \<^verbatim>\<open>item.cart\<close>: the cart row the item points to, \<^verbatim>\<open>None\<close> when
  there is none.\<close>

definition item_cart :: "db \<Rightarrow> cart_item \<Rightarrow> cart option" where
  "item_cart d item = find (\<lambda>c. c_id c = ci_cart_id item) (carts d)"

text \<open>Modelled from the spec: \<^verbatim>\<open>crud.add_cart_item\<close>. The quantity must be at least
  1; a smaller one is a domain-validation failure (BadRequest) and nothing is stored. The
  handler has no \<^verbatim>\<open>try\<close> around the call, so the failure is the \<^verbatim>\<open>HTTPException\<close>
  itself. When the product is already in the cart the quantity is summed into the
  existing line item; otherwise a new line item is stored.\<close>

definition crud_add_cart_item :: "db \<Rightarrow> int \<Rightarrow> cart_item_base \<Rightarrow> (failure + cart_item) \<times> db" where
  "crud_add_cart_item d cart_id item =
     (if cib_quantity item < 1
      then (Inl (HTTPException 400 ''Quantity must be at least 1''), d)
      else case find (\<lambda>ci. ci_cart_id ci = cart_id \<and> ci_product_id ci = cib_product_id item)
                  (cart_items d) of
             Some existing \<Rightarrow>
               (let e' = existing\<lparr>ci_quantity := ci_quantity existing + cib_quantity item\<rparr>
                in (Inr e', d\<lparr>cart_items := map (\<lambda>ci. if ci_id ci = ci_id existing then e' else ci)
                                                 (cart_items d)\<rparr>))
           | None \<Rightarrow>
               (let new_item = \<lparr>ci_id = next_id (map ci_id (cart_items d)), ci_cart_id = cart_id,
                                 ci_product_id = cib_product_id item,
                                 ci_quantity = cib_quantity item\<rparr>
                in (Inr new_item, d\<lparr>cart_items := cart_items d @ [new_item]\<rparr>)))"

text \<open>Modelled from the spec: \<^verbatim>\<open>crud.update_cart_item\<close> sets the quantity of the
  line item with the given id and returns it, or returns \<^verbatim>\<open>None\<close> when the item is
  absent.\<close>

definition crud_update_cart_item :: "db \<Rightarrow> int \<Rightarrow> int \<Rightarrow> cart_item option \<times> db" where
  "crud_update_cart_item d cart_item_id quantity =
     (case find (\<lambda>ci. ci_id ci = cart_item_id) (cart_items d) of
        None \<Rightarrow> (None, d)
      | Some item \<Rightarrow>
          (let item' = item\<lparr>ci_quantity := quantity\<rparr>
           in (Some item', d\<lparr>cart_items := map (\<lambda>ci. if ci_id ci = cart_item_id then item' else ci)
                                               (cart_items d)\<rparr>)))"

text \<open>Modelled from the spec: \<^verbatim>\<open>crud.remove_cart_item\<close> removes the line item with
  the given id and returns it, or returns \<^verbatim>\<open>None\<close> when the item is absent.\<close>

definition crud_remove_cart_item :: "db \<Rightarrow> int \<Rightarrow> cart_item option \<times> db" where
  "crud_remove_cart_item d cart_item_id =
     (case find (\<lambda>ci. ci_id ci = cart_item_id) (cart_items d) of
        None \<Rightarrow> (None, d)
      | Some item \<Rightarrow>
          (Some item, d\<lparr>cart_items := filter (\<lambda>ci. ci_id ci \<noteq> cart_item_id) (cart_items d)\<rparr>))"

text \<open>\<^verbatim>\<open>GET /cart/{user_id}\<close>\<close>

definition get_cart :: "int \<Rightarrow> user \<Rightarrow> db \<Rightarrow> (failure + cart) \<times> db" where
  "get_cart user_id current_user d =
     (if u_id current_user \<noteq> user_id \<and> u_role current_user \<noteq> ''admin''
      then (Inl (HTTPException 403 ''You are not authorized to access this cart''), d)
      else case crud_get_cart d (u_id current_user) of
             Some crt \<Rightarrow> (Inr crt, d)
           | None \<Rightarrow> (case crud_create_cart d (u_id current_user) of (crt, d') \<Rightarrow> (Inr crt, d')))"

text \<open>\<^verbatim>\<open>POST /cart/{user_id}/items\<close>\<close>

definition add_item_to_cart :: "int \<Rightarrow> cart_item_base \<Rightarrow> user \<Rightarrow> db \<Rightarrow> (failure + cart_item) \<times> db" where
  "add_item_to_cart user_id item current_user d =
     (if u_id current_user \<noteq> user_id \<and> u_role current_user \<noteq> ''admin''
      then (Inl (HTTPException 403 ''You are not authorized to access this cart''), d)
      else case (case crud_get_cart d (u_id current_user) of
                   Some crt \<Rightarrow> (crt, d)
                 | None \<Rightarrow> crud_create_cart d (u_id current_user)) of
             (crt, d') \<Rightarrow> crud_add_cart_item d' (c_id crt) item)"

text \<open>\<^verbatim>\<open>PUT /cart/items/{cart_item_id}\<close>: the \<^verbatim>\<open>crud\<close> call comes first, the two checks
  after it.\<close>

definition update_cart_item :: "int \<Rightarrow> int \<Rightarrow> user \<Rightarrow> db \<Rightarrow> (failure + cart_item) \<times> db" where
  "update_cart_item cart_item_id quantity current_user d =
     (case crud_update_cart_item d cart_item_id quantity of
        (None, d') \<Rightarrow> (Inl (HTTPException 404 ''Cart item not found''), d')
      | (Some item, d') \<Rightarrow>
          (case item_cart d' item of
             None \<Rightarrow> (Inl AttributeError, d')
           | Some crt \<Rightarrow>
               if c_user_id crt \<noteq> u_id current_user \<and> u_role current_user \<noteq> ''admin''
               then (Inl (HTTPException 403 ''Not allowed to modify this item''), d')
               else (Inr item, d')))"

text \<open>\<^verbatim>\<open>DELETE /cart/items/{cart_item_id}\<close>: \<^verbatim>\<open>crud.remove_cart_item\<close> is called first,
  then the checks, then \<^verbatim>\<open>crud.remove_cart_item\<close> a second time. The query assigned to
  the local \<^verbatim>\<open>cart\<close> is a read whose result is not used; the row the first call
  returned keeps its columns, so \<^verbatim>\<open>item.cart_id\<close> is read without failure. By the time
  \<^verbatim>\<open>item.cart\<close> is evaluated the row is deleted and committed: under lazy loading the
  cart cannot be fetched any more and the access raises, under eager loading it is the
  cart that was loaded with the row.\<close>

definition delete_cart_item :: "loading \<Rightarrow> int \<Rightarrow> user \<Rightarrow> db \<Rightarrow> (failure + string) \<times> db" where
  "delete_cart_item cart_loading cart_item_id current_user d =
     (case crud_remove_cart_item d cart_item_id of
        (None, d') \<Rightarrow> (Inl (HTTPException 404 ''Cart item not found''), d')
      | (Some item, d') \<Rightarrow>
          (case cart_loading of
             Lazy \<Rightarrow> (Inl DetachedInstanceError, d')
           | Eager \<Rightarrow>
               (case item_cart d item of
                  None \<Rightarrow> (Inl AttributeError, d')
                | Some crt \<Rightarrow>
                    if c_user_id crt \<noteq> u_id current_user \<and> u_role current_user \<noteq> ''admin''
                    then (Inl (HTTPException 403 ''Not allowed to delete this item''), d')
                    else (case crud_remove_cart_item d' cart_item_id of
                            (_, d'') \<Rightarrow> (Inr ''Cart Item Deleted Successfully'', d'')))))"

section \<open>Orders\<close>

text \<open>Modelled from the spec: \<^verbatim>\<open>crud.create_order_from_cart_for_user\<close>. A cart that
  is absent or has no items fails with BadRequest; otherwise the order (status placed)
  takes the snapshot of the cart's items (of each the product and the quantity) and the
  cart is emptied with it. The handler
  has no \<^verbatim>\<open>try\<close> around the call (the review and shipment handlers catch
  \<^verbatim>\<open>ValueError\<close>), so the failure is the \<^verbatim>\<open>HTTPException\<close> itself. The total of an
  order is not modelled: the specification does not say how it is computed.\<close>

definition crud_create_order_from_cart_for_user :: "db \<Rightarrow> int \<Rightarrow> (failure + order) \<times> db" where
  "crud_create_order_from_cart_for_user d user_id =
     (case crud_get_cart d user_id of
        None \<Rightarrow> (Inl (HTTPException 400 ''Cart is empty''), d)
      | Some crt \<Rightarrow>
          if items_of_cart d (c_id crt) = []
          then (Inl (HTTPException 400 ''Cart is empty''), d)
          else (let ord = \<lparr>o_id = next_id (map o_id (orders d)), o_user_id = user_id,
                            o_items = map (\<lambda>ci. \<lparr>oi_product_id = ci_product_id ci,
                                                    oi_quantity = ci_quantity ci\<rparr>)
                                          (items_of_cart d (c_id crt)),
                            o_status = ''placed''\<rparr>
                in (Inr ord,
                    d\<lparr>orders := orders d @ [ord],
                      cart_items := filter (\<lambda>ci. ci_cart_id ci \<noteq> c_id crt) (cart_items d)\<rparr>)))"

text \<open>Modelled from the spec: \<^verbatim>\<open>crud.get_orders\<close>, the orders of the given user.\<close>

definition crud_get_orders :: "db \<Rightarrow> int \<Rightarrow> order list" where
  "crud_get_orders d user_id = filter (\<lambda>ord. o_user_id ord = user_id) (orders d)"

text \<open>\<^verbatim>\<open>POST /orders/\<close>\<close>

definition create_order_from_cart :: "int \<Rightarrow> user \<Rightarrow> db \<Rightarrow> (failure + order) \<times> db" where
  "create_order_from_cart user_id current_user d =
     (if user_id \<noteq> u_id current_user \<and> u_role current_user \<noteq> ''admin''
      then (Inl (HTTPException 403 ''Not authorized''), d)
      else crud_create_order_from_cart_for_user d (u_id current_user))"

text \<open>\<^verbatim>\<open>GET /orders/{user_id}\<close>\<close>

definition get_orders :: "int \<Rightarrow> user \<Rightarrow> db \<Rightarrow> (failure + order list) \<times> db" where
  "get_orders user_id current_user d =
     (if user_id \<noteq> u_id current_user \<and> u_role current_user \<noteq> ''admin''
      then (Inl (HTTPException 403 ''Not authorized''), d)
      else (Inr (crud_get_orders d (u_id current_user)), d))"

section \<open>Wishlist\<close>

text \<open>Modelled from the spec: \<^verbatim>\<open>crud.add_to_wishlist\<close> stores a wishlist entry of
  the given user for the given product (uniqueness is not enforced).\<close>

definition crud_add_to_wishlist :: "db \<Rightarrow> int \<Rightarrow> int \<Rightarrow> wishlist \<times> db" where
  "crud_add_to_wishlist d user_id product_id =
     (let w = \<lparr>w_id = next_id (map w_id (wishlists d)), w_user_id = user_id,
                w_product_id = product_id\<rparr>
      in (w, d\<lparr>wishlists := wishlists d @ [w]\<rparr>))"

text \<open>Modelled from the spec: \<^verbatim>\<open>crud.remove_from_wishlist\<close> removes the wishlist
  entry with the given id and returns it, or returns \<^verbatim>\<open>None\<close> when it is absent.\<close>

definition crud_remove_from_wishlist :: "db \<Rightarrow> int \<Rightarrow> wishlist option \<times> db" where
  "crud_remove_from_wishlist d wishlist_id =
     (case find (\<lambda>w. w_id w = wishlist_id) (wishlists d) of
        None \<Rightarrow> (None, d)
      | Some item \<Rightarrow>
          (Some item, d\<lparr>wishlists := filter (\<lambda>w. w_id w \<noteq> wishlist_id) (wishlists d)\<rparr>))"

text \<open>\<^verbatim>\<open>POST /wishlist/\<close>: the entry is always the requester's own.\<close>

definition add_to_wishlist_endpoint :: "int \<Rightarrow> user \<Rightarrow> db \<Rightarrow> (failure + wishlist) \<times> db" where
  "add_to_wishlist_endpoint product_id current_user d =
     (case crud_add_to_wishlist d (u_id current_user) product_id of (item, d') \<Rightarrow> (Inr item, d'))"

text \<open>\<^verbatim>\<open>DELETE /wishlist/{wishlist_id}\<close>: the \<^verbatim>\<open>crud\<close> call comes first, the two checks
  after it.\<close>

definition remove_wishlist_endpoint :: "int \<Rightarrow> user \<Rightarrow> db \<Rightarrow> (failure + unit) \<times> db" where
  "remove_wishlist_endpoint wishlist_id current_user d =
     (case crud_remove_from_wishlist d wishlist_id of
        (None, d') \<Rightarrow> (Inl (HTTPException 404 ''Wishlist item not found''), d')
      | (Some item, d') \<Rightarrow>
          if w_user_id item \<noteq> u_id current_user \<and> u_role current_user \<noteq> ''admin''
          then (Inl (HTTPException 403 ''Not allowed''), d')
          else (Inr (), d'))"

section \<open>Sequences of requests and the cart invariant\<close>

text \<open>A sequence of \<^verbatim>\<open>POST /cart/{user_id}/items\<close> requests, each with its path
  parameter, body and requester, run one after the other on the database.\<close>

fun add_items :: "(int \<times> cart_item_base \<times> user) list \<Rightarrow> db \<Rightarrow> db" where
  "add_items [] d = d"
| "add_items ((user_id, item, current_user) # rs) d =
     add_items rs (snd (add_item_to_cart user_id item current_user d))"

text \<open>The cart-item table holds at most one row per (cart, product) pair, and its
  primary keys are unique.\<close>

definition one_line_per_product :: "db \<Rightarrow> bool" where
  "one_line_per_product d =
     distinct (map (\<lambda>ci. (ci_cart_id ci, ci_product_id ci)) (cart_items d))"

definition cart_item_ids_unique :: "db \<Rightarrow> bool" where
  "cart_item_ids_unique d = distinct (map ci_id (cart_items d))"

text \<open>The rows stored for a product in a cart, the quantity they add up to (0 when
  there is no row), and every stored quantity being at least 1.\<close>

definition lines_of :: "db \<Rightarrow> int \<Rightarrow> int \<Rightarrow> cart_item list" where
  "lines_of d cart_id product_id =
     filter (\<lambda>ci. ci_cart_id ci = cart_id \<and> ci_product_id ci = product_id) (cart_items d)"

definition quantity_in :: "db \<Rightarrow> int \<Rightarrow> int \<Rightarrow> int" where
  "quantity_in d cart_id product_id = sum_list (map ci_quantity (lines_of d cart_id product_id))"

definition quantities_positive :: "db \<Rightarrow> bool" where
  "quantities_positive d = list_all (\<lambda>ci. 1 \<le> ci_quantity ci) (cart_items d)"

section \<open>Example states\<close>

definition alice :: user where
  "alice = \<lparr>u_id = 1, u_email = ''alice@example.com'', u_password = ''hash-a'', u_role = ''customer''\<rparr>"

definition bob :: user where
  "bob = \<lparr>u_id = 2, u_email = ''bob@example.com'', u_password = ''hash-b'', u_role = ''customer''\<rparr>"

definition root :: user where
  "root = \<lparr>u_id = 3, u_email = ''root@example.com'', u_password = ''hash-r'', u_role = ''admin''\<rparr>"

definition sam :: user where
  "sam = \<lparr>u_id = 4, u_email = ''sam@example.com'', u_password = ''hash-s'', u_role = ''seller''\<rparr>"

definition tom :: user where
  "tom = \<lparr>u_id = 5, u_email = ''tom@example.com'', u_password = ''hash-t'', u_role = ''seller''\<rparr>"

definition pen :: product where
  "pen = \<lparr>p_id = 1, p_name = ''pen'', p_price = 5, p_category_id = 1, p_seller_id = Some 4\<rparr>"

definition pen_body :: product_base where
  "pen_body = \<lparr>pb_name = ''pen'', pb_price = 6, pb_category_id = 1, pb_seller_id = Some 4\<rparr>"

definition alice_cart :: cart where
  "alice_cart = \<lparr>c_id = 1, c_user_id = 1\<rparr>"

definition alice_item :: cart_item where
  "alice_item = \<lparr>ci_id = 1, ci_cart_id = 1, ci_product_id = 1, ci_quantity = 3\<rparr>"

definition alice_order :: order where
  "alice_order = \<lparr>o_id = 1, o_user_id = 1,
                   o_items = [\<lparr>oi_product_id = 1, oi_quantity = 2\<rparr>], o_status = ''placed''\<rparr>"

definition alice_wish :: wishlist where
  "alice_wish = \<lparr>w_id = 1, w_user_id = 1, w_product_id = 1\<rparr>"

text \<open>A stand-in for the password hash of the absent \<^verbatim>\<open>crud\<close> module and its check.\<close>

definition toy_hash :: "string \<Rightarrow> string" where
  "toy_hash p = ''hash-'' @ p"

definition toy_verify :: "string \<Rightarrow> string \<Rightarrow> bool" where
  "toy_verify p h = (h = toy_hash p)"

definition alice_signup :: user_create where
  "alice_signup = \<lparr>uc_email = ''alice@example.com'', uc_password = ''a2''\<rparr>"

definition carol_signup :: user_create where
  "carol_signup = \<lparr>uc_email = ''carol@example.com'', uc_password = ''c''\<rparr>"

definition bob_cart :: cart where
  "bob_cart = \<lparr>c_id = 2, c_user_id = 2\<rparr>"

definition root_cart :: cart where
  "root_cart = \<lparr>c_id = 2, c_user_id = 3\<rparr>"

definition root_item :: cart_item where
  "root_item = \<lparr>ci_id = 2, ci_cart_id = 2, ci_product_id = 1, ci_quantity = 7\<rparr>"

text \<open>Two ways the absent \<^verbatim>\<open>crud.create_product\<close> may choose the seller it stores:
  the argument alone, or the argument and, when that is \<^verbatim>\<open>None\<close>, the body's field.\<close>

definition argument_only :: "int option \<Rightarrow> int option \<Rightarrow> int option" where
  "argument_only body_seller_id seller_id = seller_id"

definition argument_else_body :: "int option \<Rightarrow> int option \<Rightarrow> int option" where
  "argument_else_body body_seller_id seller_id =
     (case seller_id of None \<Rightarrow> body_seller_id | Some s \<Rightarrow> Some s)"

definition two_pens :: cart_item_base where
  "two_pens = \<lparr>cib_product_id = 1, cib_quantity = 2\<rparr>"

definition no_pens :: cart_item_base where
  "no_pens = \<lparr>cib_product_id = 1, cib_quantity = 0\<rparr>"

definition requests :: "(int \<times> cart_item_base \<times> user) list" where
  "requests = [(1, two_pens, alice), (1, two_pens, alice), (2, two_pens, bob),
               (1, two_pens, bob), (2, two_pens, root), (1, no_pens, alice)]"

definition empty_db :: db where
  "empty_db = \<lparr>users = [], addresses = [], products = [], carts = [], cart_items = [],
               orders = [], wishlists = []\<rparr>"

text \<open>Alice has a cart with three pens, one earlier order and one wishlist entry; the
  admin and the others have no cart, no order and no wishlist entry.\<close>

definition shop :: db where
  "shop = \<lparr>users = [alice, bob, root, sam, tom], addresses = [], products = [pen],
           carts = [alice_cart], cart_items = [alice_item], orders = [alice_order],
           wishlists = [alice_wish]\<rparr>"

text \<open>The same, and the admin has a cart of his own with seven pens.\<close>

definition shop2 :: db where
  "shop2 = shop\<lparr>carts := [alice_cart, root_cart], cart_items := [alice_item, root_item]\<rparr>"

section \<open>Properties of the handlers\<close>

lemmas example_defs = alice_def bob_def root_def sam_def tom_def pen_def pen_body_def
  alice_cart_def alice_item_def alice_order_def alice_wish_def empty_db_def shop_def
  toy_hash_def toy_verify_def alice_signup_def carol_signup_def bob_cart_def two_pens_def
  requests_def root_cart_def root_item_def shop2_def no_pens_def

subsection \<open>Lookups and fresh keys\<close>

lemma find_distinct_key:
  "distinct (map f xs) \<Longrightarrow> x \<in> set xs \<Longrightarrow> find (\<lambda>y. f y = f x) xs = Some x"
  by (induction xs) (auto simp: image_iff)

lemma fold_max_bounds:
  "(a::int) \<le> fold max xs a \<and> (\<forall>x \<in> set xs. x \<le> fold max xs a)"
proof (induction xs arbitrary: a)
  case Nil
  show ?case by simp
next
  case (Cons y ys)
  from Cons.IH [of "max y a"] show ?case by auto
qed

lemma next_id_fresh: "next_id ids \<notin> set ids"
proof
  assume "next_id ids \<in> set ids"
  then have "next_id ids \<le> fold max ids 0" using fold_max_bounds [of 0 ids] by blast
  then show False by (simp add: next_id_def)
qed

subsection \<open>Orders are snapshots of the cart\<close>

text \<open>
  A user who places the order for themselves: a cart with items gives an order of that
  user whose lines are, in order, the product and quantity of each item of the cart, and
  the cart is left without items; an absent or empty cart gives 400 and the database is
  left as it was.
\<close>

lemma own_order_is_cart_snapshot:
  "(\<forall>crt. crud_get_cart d (u_id current_user) = Some crt \<and> items_of_cart d (c_id crt) \<noteq> [] \<longrightarrow>
      (\<exists>ord. create_order_from_cart (u_id current_user) current_user d =
                (Inr ord, d\<lparr>orders := orders d @ [ord],
                            cart_items := filter (\<lambda>ci. ci_cart_id ci \<noteq> c_id crt) (cart_items d)\<rparr>) \<and>
             o_user_id ord = u_id current_user \<and>
             o_items ord = map (\<lambda>ci. \<lparr>oi_product_id = ci_product_id ci,
                                      oi_quantity = ci_quantity ci\<rparr>)
                             (items_of_cart d (c_id crt)) \<and>
             items_of_cart (snd (create_order_from_cart (u_id current_user) current_user d))
               (c_id crt) = [])) \<and>
   (crud_get_cart d (u_id current_user) = None \<or>
    (\<exists>crt. crud_get_cart d (u_id current_user) = Some crt \<and> items_of_cart d (c_id crt) = []) \<longrightarrow>
      create_order_from_cart (u_id current_user) current_user d =
        (Inl (HTTPException 400 ''Cart is empty''), d))"
  by (auto simp: create_order_from_cart_def crud_create_order_from_cart_for_user_def Let_def
      items_of_cart_def)

text \<open>
  C1. \<^verbatim>\<open>POST /orders/\<close> checks the requester against the \<^verbatim>\<open>user_id\<close> of the request and
  then passes the requester's own id on. The admin names Alice, whose cart holds three
  pens, while the admin's own cart holds seven. The order that is created belongs to the
  admin and has the admin's seven pens as its line; the admin's cart is emptied and
  Alice's cart keeps its item. Named for Bob, who has no cart at all, the same request
  succeeds in the same way where 400 is due. Alice's own request takes her three pens and
  empties her cart.
\<close>

theorem order_taken_from_requester_cart:
  "u_role root = ''admin'' \<and> u_id root = 3 \<and>
   crud_get_cart shop2 1 = Some alice_cart \<and> items_of_cart shop2 (c_id alice_cart) = [alice_item] \<and>
   ci_product_id alice_item = 1 \<and> ci_quantity alice_item = 3 \<and>
   crud_get_cart shop2 2 = None \<and> orders shop2 = [alice_order] \<and>
   create_order_from_cart 1 root shop2 =
     (Inr \<lparr>o_id = 2, o_user_id = 3, o_items = [\<lparr>oi_product_id = 1, oi_quantity = 7\<rparr>],
            o_status = ''placed''\<rparr>,
      shop2\<lparr>orders := [alice_order,
                       \<lparr>o_id = 2, o_user_id = 3, o_items = [\<lparr>oi_product_id = 1, oi_quantity = 7\<rparr>],
                          o_status = ''placed''\<rparr>],
            cart_items := [alice_item]\<rparr>) \<and>
   items_of_cart (snd (create_order_from_cart 1 root shop2)) (c_id alice_cart) = [alice_item] \<and>
   create_order_from_cart 2 root shop2 =
     (Inr \<lparr>o_id = 2, o_user_id = 3, o_items = [\<lparr>oi_product_id = 1, oi_quantity = 7\<rparr>],
            o_status = ''placed''\<rparr>,
      shop2\<lparr>orders := [alice_order,
                       \<lparr>o_id = 2, o_user_id = 3, o_items = [\<lparr>oi_product_id = 1, oi_quantity = 7\<rparr>],
                          o_status = ''placed''\<rparr>],
            cart_items := [alice_item]\<rparr>) \<and>
   create_order_from_cart 1 alice shop2 =
     (Inr \<lparr>o_id = 2, o_user_id = 1, o_items = [\<lparr>oi_product_id = 1, oi_quantity = 3\<rparr>],
            o_status = ''placed''\<rparr>,
      shop2\<lparr>orders := [alice_order,
                       \<lparr>o_id = 2, o_user_id = 1, o_items = [\<lparr>oi_product_id = 1, oi_quantity = 3\<rparr>],
                          o_status = ''placed''\<rparr>],
            cart_items := [root_item]\<rparr>)"
  by (simp add: create_order_from_cart_def crud_create_order_from_cart_for_user_def
      crud_get_cart_def items_of_cart_def next_id_def Let_def example_defs)

subsection \<open>Requests that are refused after the write\<close>

text \<open>
  C2. The cart-item update, the cart-item delete and the wishlist delete call the
  writing \<^verbatim>\<open>crud\<close> function first and check the owner afterwards. Bob, a customer,
  names Alice's cart item and Alice's wishlist entry: each of the three requests is
  answered with an error, and each has written all the same. The quantity of Alice's item
  is 99 instead of 3 after the update (403), the item is gone after the delete (403 when
  the cart is loaded eagerly, \<^verbatim>\<open>DetachedInstanceError\<close> when it is loaded lazily), and the
  wishlist entry is gone after the wishlist delete (403).
\<close>

theorem forbidden_requests_still_write:
  "update_cart_item 1 99 bob shop =
     (Inl (HTTPException 403 ''Not allowed to modify this item''),
      shop\<lparr>cart_items := [alice_item\<lparr>ci_quantity := 99\<rparr>]\<rparr>) \<and>
   delete_cart_item Eager 1 bob shop =
     (Inl (HTTPException 403 ''Not allowed to delete this item''), shop\<lparr>cart_items := []\<rparr>) \<and>
   delete_cart_item Lazy 1 bob shop = (Inl DetachedInstanceError, shop\<lparr>cart_items := []\<rparr>) \<and>
   remove_wishlist_endpoint 1 bob shop =
     (Inl (HTTPException 403 ''Not allowed''), shop\<lparr>wishlists := []\<rparr>) \<and>
   cart_items shop = [alice_item] \<and> ci_quantity alice_item = 3 \<and> wishlists shop = [alice_wish] \<and>
   item_cart shop alice_item = Some alice_cart \<and> c_user_id alice_cart \<noteq> u_id bob \<and>
   w_user_id alice_wish \<noteq> u_id bob \<and> u_role bob \<noteq> ''admin''"
  by (simp add: update_cart_item_def delete_cart_item_def remove_wishlist_endpoint_def
      crud_update_cart_item_def crud_remove_cart_item_def crud_remove_from_wishlist_def
      item_cart_def Let_def example_defs)

subsection \<open>Whose cart and orders an admin's request reaches\<close>

text \<open>
  C3. The cart and order endpoints check the requester against the \<^verbatim>\<open>user_id\<close> of the
  request and then pass the requester's own id to \<^verbatim>\<open>crud\<close>. The admin (id 3) names
  Alice (id 1), who has a cart with an item and one order. \<^verbatim>\<open>GET /cart/1\<close> creates and
  returns a cart owned by the admin, \<^verbatim>\<open>GET /orders/1\<close> returns the admin's orders
  (none) and not Alice's, and \<^verbatim>\<open>POST /orders/?user_id=1\<close> fails with 400 because the
  admin's cart is absent, Alice's cart being left as it was.
\<close>

theorem admin_request_acts_on_admin:
  "u_role root = ''admin'' \<and> u_id root = 3 \<and>
   crud_get_cart shop 1 = Some alice_cart \<and> crud_get_orders shop 1 = [alice_order] \<and>
   items_of_cart shop (c_id alice_cart) = [alice_item] \<and>
   get_cart 1 root shop =
     (Inr \<lparr>c_id = 2, c_user_id = 3\<rparr>, shop\<lparr>carts := [alice_cart, \<lparr>c_id = 2, c_user_id = 3\<rparr>]\<rparr>) \<and>
   get_orders 1 root shop = (Inr [], shop) \<and>
   create_order_from_cart 1 root shop = (Inl (HTTPException 400 ''Cart is empty''), shop)"
  by (simp add: get_cart_def get_orders_def create_order_from_cart_def crud_get_cart_def
      crud_create_cart_def crud_get_orders_def crud_create_order_from_cart_for_user_def
      items_of_cart_def next_id_def Let_def example_defs)

subsection \<open>One line item per cart and product\<close>

lemma distinct_key_count:
  "distinct (map f xs) \<Longrightarrow> length (filter (\<lambda>x. f x = k) xs) \<le> 1"
proof (induction xs)
  case Nil
  show ?case by simp
next
  case (Cons y ys)
  show ?case
  proof (cases "f y = k")
    case True
    with Cons.prems have "k \<notin> f ` set ys" by simp
    then have "\<forall>x \<in> set ys. f x \<noteq> k" by blast
    then have "filter (\<lambda>x. f x = k) ys = []" by (simp add: filter_empty_conv)
    with True show ?thesis by simp
  next
    case False
    with Cons show ?thesis by simp
  qed
qed

lemma only_line:
  "distinct (map f xs) \<Longrightarrow> e \<in> set xs \<Longrightarrow> filter (\<lambda>x. f x = f e) xs = [e]"
proof (induction xs)
  case Nil
  then show ?case by simp
next
  case (Cons y ys)
  show ?case
  proof (cases "y = e")
    case True
    with Cons.prems have "f e \<notin> f ` set ys" by simp
    then have "\<forall>x \<in> set ys. f x \<noteq> f e" by (metis image_eqI)
    then have "filter (\<lambda>x. f x = f e) ys = []" by (simp add: filter_empty_conv)
    with True show ?thesis by simp
  next
    case False
    with Cons.prems have mem: "e \<in> set ys" and d: "distinct (map f ys)"
      and ny: "f y \<notin> f ` set ys" by simp_all
    from mem ny have "f y \<noteq> f e" by (metis image_eqI)
    with Cons.IH [OF d mem] show ?thesis by simp
  qed
qed

lemma find_first_of_filter:
  "find P xs = (case filter P xs of [] \<Rightarrow> None | x # _ \<Rightarrow> Some x)"
  by (induction xs) simp_all

lemma find_snoc:
  "find P xs = None \<Longrightarrow> P y \<Longrightarrow> find P (xs @ [y]) = Some y"
  by (induction xs) (simp_all split: if_splits)

lemma replace_by_id_keeps:
  assumes "distinct (map ci_id xs)" and "e \<in> set xs"
    and "ci_id e' = ci_id e" and "ci_cart_id e' = ci_cart_id e"
    and "ci_product_id e' = ci_product_id e"
  shows "map ci_id (map (\<lambda>ci. if ci_id ci = ci_id e then e' else ci) xs) = map ci_id xs"
    and "map (\<lambda>ci. (ci_cart_id ci, ci_product_id ci))
           (map (\<lambda>ci. if ci_id ci = ci_id e then e' else ci) xs) =
         map (\<lambda>ci. (ci_cart_id ci, ci_product_id ci)) xs"
proof -
  from assms(1) have inj: "inj_on ci_id (set xs)" by (simp add: distinct_map)
  have same: "\<forall>ci \<in> set xs. ci_id ci = ci_id e \<longrightarrow> ci = e"
    using inj assms(2) by (auto dest: inj_onD)
  show "map ci_id (map (\<lambda>ci. if ci_id ci = ci_id e then e' else ci) xs) = map ci_id xs"
    using assms(3) by simp
  show "map (\<lambda>ci. (ci_cart_id ci, ci_product_id ci))
           (map (\<lambda>ci. if ci_id ci = ci_id e then e' else ci) xs) =
         map (\<lambda>ci. (ci_cart_id ci, ci_product_id ci)) xs"
    using same assms(4,5) by auto
qed

text \<open>Replacing the row with a given key by a row of the same cart and product: the
  rows of that cart and product become the new row, all others stay.\<close>

lemma replace_by_id_lines:
  assumes ids: "distinct (map ci_id xs)"
    and keys: "distinct (map (\<lambda>ci. (ci_cart_id ci, ci_product_id ci)) xs)"
    and mem: "e \<in> set xs"
    and e': "ci_id e' = ci_id e" "ci_cart_id e' = ci_cart_id e" "ci_product_id e' = ci_product_id e"
  shows "filter (\<lambda>ci. ci_cart_id ci = c \<and> ci_product_id ci = p)
           (map (\<lambda>ci. if ci_id ci = ci_id e then e' else ci) xs) =
         (if (c, p) = (ci_cart_id e, ci_product_id e) then [e']
          else filter (\<lambda>ci. ci_cart_id ci = c \<and> ci_product_id ci = p) xs)"
proof -
  let ?f = "\<lambda>ci. if ci_id ci = ci_id e then e' else ci"
  let ?P = "\<lambda>ci. ci_cart_id ci = c \<and> ci_product_id ci = p"
  from ids have inj: "inj_on ci_id (set xs)" by (simp add: distinct_map)
  have same: "\<forall>ci \<in> set xs. ci_id ci = ci_id e \<longrightarrow> ci = e"
    using inj mem by (auto dest: inj_onD)
  have pf: "\<forall>ci \<in> set xs. ?P (?f ci) = ?P ci"
    using same e' by auto
  have "filter ?P (map ?f xs) = map ?f (filter (?P \<circ> ?f) xs)"
    by (simp add: filter_map)
  also have "filter (?P \<circ> ?f) xs = filter ?P xs"
    using pf by (intro filter_cong) simp_all
  finally have step: "filter ?P (map ?f xs) = map ?f (filter ?P xs)" .
  show ?thesis
  proof (cases "(c, p) = (ci_cart_id e, ci_product_id e)")
    case True
    have "filter (\<lambda>x. (ci_cart_id x, ci_product_id x) = (ci_cart_id e, ci_product_id e)) xs = [e]"
      using only_line [OF keys mem] by simp
    with True have "filter ?P xs = [e]" by simp
    with step True show ?thesis by simp
  next
    case False
    then have "\<forall>ci \<in> set (filter ?P xs). ci \<noteq> e" by auto
    then have "\<forall>ci \<in> set (filter ?P xs). ?f ci = ci"
      using same by auto
    then have "map ?f (filter ?P xs) = filter ?P xs"
      by (intro map_idI) simp
    with step False show ?thesis by auto
  qed
qed

lemma crud_add_cart_item_inv:
  assumes "cart_item_ids_unique d" and "one_line_per_product d"
  shows "cart_item_ids_unique (snd (crud_add_cart_item d cart_id item)) \<and>
         one_line_per_product (snd (crud_add_cart_item d cart_id item))"
proof (cases "cib_quantity item < 1")
  case True
  with assms show ?thesis by (simp add: crud_add_cart_item_def)
next
  case valid: False
  show ?thesis
  proof (cases "find (\<lambda>ci. ci_cart_id ci = cart_id \<and> ci_product_id ci = cib_product_id item)
                  (cart_items d)")
    case None
    then have nokey: "(cart_id, cib_product_id item) \<notin>
        (\<lambda>ci. (ci_cart_id ci, ci_product_id ci)) ` set (cart_items d)"
      by (auto simp: find_None_iff)
    have fresh: "next_id (map ci_id (cart_items d)) \<notin> ci_id ` set (cart_items d)"
      using next_id_fresh [of "map ci_id (cart_items d)"] by simp
    from None valid nokey fresh assms show ?thesis
      by (simp add: crud_add_cart_item_def Let_def cart_item_ids_unique_def
          one_line_per_product_def)
  next
    case (Some e)
    let ?e' = "e\<lparr>ci_quantity := ci_quantity e + cib_quantity item\<rparr>"
    let ?d' = "snd (crud_add_cart_item d cart_id item)"
    from Some have mem: "e \<in> set (cart_items d)" by (auto simp: find_Some_iff)
    from assms(1) have dist: "distinct (map ci_id (cart_items d))"
      by (simp add: cart_item_ids_unique_def)
    have eq: "cart_items ?d' = map (\<lambda>ci. if ci_id ci = ci_id e then ?e' else ci) (cart_items d)"
      using Some valid by (simp add: crud_add_cart_item_def Let_def)
    have ids: "map ci_id (cart_items ?d') = map ci_id (cart_items d)"
      unfolding eq by (rule replace_by_id_keeps(1) [OF dist mem]) simp_all
    have keys: "map (\<lambda>ci. (ci_cart_id ci, ci_product_id ci)) (cart_items ?d') =
        map (\<lambda>ci. (ci_cart_id ci, ci_product_id ci)) (cart_items d)"
      unfolding eq by (rule replace_by_id_keeps(2) [OF dist mem]) simp_all
    from assms show ?thesis
      unfolding cart_item_ids_unique_def one_line_per_product_def ids keys by simp
  qed
qed

lemma crud_add_cart_item_positive:
  assumes "quantities_positive d"
  shows "quantities_positive (snd (crud_add_cart_item d cart_id item))"
proof (cases "cib_quantity item < 1")
  case True
  with assms show ?thesis by (simp add: crud_add_cart_item_def)
next
  case valid: False
  show ?thesis
  proof (cases "find (\<lambda>ci. ci_cart_id ci = cart_id \<and> ci_product_id ci = cib_product_id item)
                  (cart_items d)")
    case None
    with valid assms show ?thesis
      by (simp add: crud_add_cart_item_def Let_def quantities_positive_def)
  next
    case (Some e)
    then have "e \<in> set (cart_items d)" by (auto simp: find_Some_iff)
    with assms have "1 \<le> ci_quantity e" by (simp add: quantities_positive_def list_all_iff)
    with Some valid assms show ?thesis
      by (auto simp: crud_add_cart_item_def Let_def quantities_positive_def list_all_iff)
  qed
qed

text \<open>What a successful \<^verbatim>\<open>crud.add_cart_item\<close> leaves in the table.\<close>

lemma crud_add_cart_item_effect:
  assumes ids: "cart_item_ids_unique d" and one: "one_line_per_product d"
    and ok: "crud_add_cart_item d cart_id item = (Inr ci, d')"
  shows "ci_cart_id ci = cart_id \<and> ci_product_id ci = cib_product_id item \<and>
         1 \<le> cib_quantity item \<and> carts d' = carts d \<and>
         ci_quantity ci = quantity_in d cart_id (cib_product_id item) + cib_quantity item \<and>
         (\<forall>c p. lines_of d' c p =
            (if (c, p) = (cart_id, cib_product_id item) then [ci] else lines_of d c p))"
proof -
  let ?P = "\<lambda>ci. ci_cart_id ci = cart_id \<and> ci_product_id ci = cib_product_id item"
  from ok have valid: "\<not> cib_quantity item < 1"
    by (auto simp: crud_add_cart_item_def split: if_splits)
  show ?thesis
  proof (cases "find ?P (cart_items d)")
    case None
    let ?new = "\<lparr>ci_id = next_id (map ci_id (cart_items d)), ci_cart_id = cart_id,
                  ci_product_id = cib_product_id item, ci_quantity = cib_quantity item\<rparr>"
    from None valid ok have ci: "ci = ?new" and d': "d' = d\<lparr>cart_items := cart_items d @ [?new]\<rparr>"
      by (auto simp: crud_add_cart_item_def Let_def)
    from None have "filter ?P (cart_items d) = []"
      by (auto simp: find_None_iff filter_empty_conv)
    then have empty: "lines_of d cart_id (cib_product_id item) = []"
      by (simp add: lines_of_def)
    then have q: "quantity_in d cart_id (cib_product_id item) = 0"
      by (simp add: quantity_in_def)
    have lines: "\<forall>c p. lines_of d' c p =
            (if (c, p) = (cart_id, cib_product_id item) then [ci] else lines_of d c p)"
      using empty by (auto simp: lines_of_def d' ci)
    from valid q lines show ?thesis by (simp add: ci d')
  next
    case (Some e)
    let ?e' = "e\<lparr>ci_quantity := ci_quantity e + cib_quantity item\<rparr>"
    from Some have mem: "e \<in> set (cart_items d)" and key: "?P e"
      by (auto simp: find_Some_iff)
    from Some valid ok have ci: "ci = ?e'"
      and d': "d' = d\<lparr>cart_items := map (\<lambda>ci. if ci_id ci = ci_id e then ?e' else ci) (cart_items d)\<rparr>"
      by (auto simp: crud_add_cart_item_def Let_def)
    from ids have dist: "distinct (map ci_id (cart_items d))"
      by (simp add: cart_item_ids_unique_def)
    from one have keys: "distinct (map (\<lambda>ci. (ci_cart_id ci, ci_product_id ci)) (cart_items d))"
      by (simp add: one_line_per_product_def)
    have "filter (\<lambda>x. (ci_cart_id x, ci_product_id x) = (ci_cart_id e, ci_product_id e))
            (cart_items d) = [e]"
      using only_line [OF keys mem] by simp
    with key have old: "lines_of d cart_id (cib_product_id item) = [e]"
      by (simp add: lines_of_def)
    then have q: "quantity_in d cart_id (cib_product_id item) = ci_quantity e"
      by (simp add: quantity_in_def)
    have lines: "\<forall>c p. lines_of d' c p =
            (if (c, p) = (cart_id, cib_product_id item) then [ci] else lines_of d c p)"
    proof (intro allI)
      fix c p
      have "lines_of d' c p =
          (if (c, p) = (ci_cart_id e, ci_product_id e) then [?e']
           else filter (\<lambda>ci. ci_cart_id ci = c \<and> ci_product_id ci = p) (cart_items d))"
        unfolding lines_of_def d'
        using replace_by_id_lines [OF dist keys mem, of ?e' c p] by simp
      with key show "lines_of d' c p =
            (if (c, p) = (cart_id, cib_product_id item) then [ci] else lines_of d c p)"
        by (simp add: lines_of_def ci)
    qed
    from valid q lines key show ?thesis by (simp add: ci d')
  qed
qed


text \<open>A request that passes the guard is an add to one cart, the requester's, which
  exists afterwards.\<close>

lemma add_item_to_cart_target:
  assumes guard: "u_id current_user = user_id \<or> u_role current_user = ''admin''"
  obtains crt d0 where "cart_items d0 = cart_items d"
    and "crud_get_cart d0 (u_id current_user) = Some crt"
    and "\<And>it. add_item_to_cart user_id it current_user d = crud_add_cart_item d0 (c_id crt) it"
proof (cases "crud_get_cart d (u_id current_user)")
  case (Some crt)
  with guard have "\<And>it. add_item_to_cart user_id it current_user d = crud_add_cart_item d (c_id crt) it"
    by (auto simp: add_item_to_cart_def)
  with Some show thesis by (intro that [of d crt]) simp_all
next
  case None
  let ?crt = "\<lparr>c_id = next_id (map c_id (carts d)), c_user_id = u_id current_user\<rparr>"
  let ?d0 = "d\<lparr>carts := carts d @ [?crt]\<rparr>"
  from None have "find (\<lambda>c. c_user_id c = u_id current_user) (carts d) = None"
    by (simp add: crud_get_cart_def)
  then have "find (\<lambda>c. c_user_id c = u_id current_user) (carts d @ [?crt]) = Some ?crt"
    by (rule find_snoc) simp
  then have found: "crud_get_cart ?d0 (u_id current_user) = Some ?crt"
    by (simp add: crud_get_cart_def)
  from None guard
  have "\<And>it. add_item_to_cart user_id it current_user d = crud_add_cart_item ?d0 (c_id ?crt) it"
    by (auto simp: add_item_to_cart_def crud_create_cart_def Let_def)
  with found show thesis by (intro that [of ?d0 ?crt]) simp_all
qed

lemma add_item_to_cart_guard:
  "add_item_to_cart user_id item current_user d = (Inr ci, d') \<Longrightarrow>
   u_id current_user = user_id \<or> u_role current_user = ''admin''"
  by (auto simp: add_item_to_cart_def split: if_splits)

lemma add_item_to_cart_inv:
  assumes "cart_item_ids_unique d" and "one_line_per_product d"
  shows "cart_item_ids_unique (snd (add_item_to_cart user_id item current_user d)) \<and>
         one_line_per_product (snd (add_item_to_cart user_id item current_user d))"
proof (cases "u_id current_user = user_id \<or> u_role current_user = ''admin''")
  case False
  with assms show ?thesis by (auto simp: add_item_to_cart_def)
next
  case True
  obtain d0 crt where same: "cart_items d0 = cart_items d"
    and cart0: "crud_get_cart d0 (u_id current_user) = Some crt"
    and run: "\<And>it. add_item_to_cart user_id it current_user d = crud_add_cart_item d0 (c_id crt) it"
    using add_item_to_cart_target [OF True, where d = d] by metis
  from same assms have "cart_item_ids_unique d0" "one_line_per_product d0"
    by (simp_all add: cart_item_ids_unique_def one_line_per_product_def)
  from crud_add_cart_item_inv [OF this, of "c_id crt" item] run show ?thesis by simp
qed

lemma add_item_to_cart_positive:
  assumes "quantities_positive d"
  shows "quantities_positive (snd (add_item_to_cart user_id item current_user d))"
proof (cases "u_id current_user = user_id \<or> u_role current_user = ''admin''")
  case False
  with assms show ?thesis by (auto simp: add_item_to_cart_def)
next
  case True
  obtain d0 crt where same: "cart_items d0 = cart_items d"
    and cart0: "crud_get_cart d0 (u_id current_user) = Some crt"
    and run: "\<And>it. add_item_to_cart user_id it current_user d = crud_add_cart_item d0 (c_id crt) it"
    using add_item_to_cart_target [OF True, where d = d] by metis
  from same assms have "quantities_positive d0" by (simp add: quantities_positive_def)
  from crud_add_cart_item_positive [OF this, of "c_id crt" item] run show ?thesis by simp
qed

lemma add_items_inv:
  "cart_item_ids_unique d \<Longrightarrow> one_line_per_product d \<Longrightarrow>
   cart_item_ids_unique (add_items rs d) \<and> one_line_per_product (add_items rs d)"
proof (induction rs arbitrary: d)
  case Nil
  then show ?case by simp
next
  case (Cons r rs)
  obtain user_id item current_user where r: "r = (user_id, item, current_user)"
    by (cases r) auto
  from add_item_to_cart_inv [OF Cons.prems, of user_id item current_user]
  show ?case using Cons.IH r by simp
qed

lemma add_items_positive:
  "quantities_positive d \<Longrightarrow> quantities_positive (add_items rs d)"
proof (induction rs arbitrary: d)
  case Nil
  then show ?case by simp
next
  case (Cons r rs)
  obtain user_id item current_user where r: "r = (user_id, item, current_user)"
    by (cases r) auto
  from add_item_to_cart_positive [OF Cons.prems, of user_id item current_user]
  show ?case using Cons.IH r by simp
qed

text \<open>The first request has stored the line; the same requester adds the product
  again.\<close>

lemma add_item_to_cart_again:
  assumes ids: "cart_item_ids_unique d" and one: "one_line_per_product d"
    and first: "add_item_to_cart user_id item current_user d = (Inr ci, d')"
    and same_product: "cib_product_id again = cib_product_id item"
    and valid: "1 \<le> cib_quantity again"
  shows "add_item_to_cart user_id again current_user d' =
           (Inr (ci\<lparr>ci_quantity := ci_quantity ci + cib_quantity again\<rparr>),
            d'\<lparr>cart_items :=
                 map (\<lambda>x. if ci_id x = ci_id ci
                           then ci\<lparr>ci_quantity := ci_quantity ci + cib_quantity again\<rparr> else x)
                   (cart_items d')\<rparr>) \<and>
         lines_of (snd (add_item_to_cart user_id again current_user d'))
           (ci_cart_id ci) (cib_product_id item) =
           [ci\<lparr>ci_quantity := ci_quantity ci + cib_quantity again\<rparr>]"
proof -
  from first have guard: "u_id current_user = user_id \<or> u_role current_user = ''admin''"
    by (rule add_item_to_cart_guard)
  obtain d0 crt where same: "cart_items d0 = cart_items d"
    and cart0: "crud_get_cart d0 (u_id current_user) = Some crt"
    and run: "\<And>it. add_item_to_cart user_id it current_user d = crud_add_cart_item d0 (c_id crt) it"
    using add_item_to_cart_target [OF guard, where d = d] by metis
  from same ids one have inv0: "cart_item_ids_unique d0" "one_line_per_product d0"
    by (simp_all add: cart_item_ids_unique_def one_line_per_product_def)
  from run first have ok: "crud_add_cart_item d0 (c_id crt) item = (Inr ci, d')" by simp
  note eff = crud_add_cart_item_effect [OF inv0 ok]
  from eff have cart_ci: "ci_cart_id ci = c_id crt" and prod_ci: "ci_product_id ci = cib_product_id item"
    and carts: "carts d' = carts d0"
    and line: "lines_of d' (c_id crt) (cib_product_id item) = [ci]"
    by simp_all
  from crud_add_cart_item_inv [OF inv0, of "c_id crt" item] ok
  have inv': "cart_item_ids_unique d'" "one_line_per_product d'" by simp_all
  from cart0 carts have cart': "crud_get_cart d' (u_id current_user) = Some crt"
    by (simp add: crud_get_cart_def)
  with guard have run': "add_item_to_cart user_id again current_user d' =
      crud_add_cart_item d' (c_id crt) again"
    by (auto simp: add_item_to_cart_def)
  from line same_product
  have found: "find (\<lambda>x. ci_cart_id x = c_id crt \<and> ci_product_id x = cib_product_id again)
                 (cart_items d') = Some ci"
    by (simp add: find_first_of_filter lines_of_def)
  from found valid have res: "crud_add_cart_item d' (c_id crt) again =
      (Inr (ci\<lparr>ci_quantity := ci_quantity ci + cib_quantity again\<rparr>),
       d'\<lparr>cart_items :=
            map (\<lambda>x. if ci_id x = ci_id ci
                      then ci\<lparr>ci_quantity := ci_quantity ci + cib_quantity again\<rparr> else x)
              (cart_items d')\<rparr>)"
    by (simp add: crud_add_cart_item_def Let_def)
  from crud_add_cart_item_effect [OF inv' res] same_product
  have "lines_of (snd (crud_add_cart_item d' (c_id crt) again)) (c_id crt) (cib_product_id item) =
      [ci\<lparr>ci_quantity := ci_quantity ci + cib_quantity again\<rparr>]"
    by (simp add: res)
  with run' res cart_ci show ?thesis by simp
qed

text \<open>
  C4. The cart-item table has unique keys and at most one row per (cart, product) pair.
  A request with a quantity of at least 1 that passes the guard succeeds. After a
  successful add-item request, whoever made it, the row it returns is the one and only
  row of its cart for the product; the quantity stored in it is the quantity the cart
  held of the product before (0 when it held none) plus the quantity added; the rows of
  every other cart and product are as before. Adding the same product a second time
  returns that same row with the second quantity summed into it, the row is again the
  only one of its cart for the product, and the table has as many rows as before. A
  quantity below 1 is refused with 400 and stores no row. Any sequence of add-item
  requests leaves a table with unique keys, at most one row per (cart, product) pair and,
  if all quantities were at least 1, all quantities at least 1.
\<close>

theorem add_item_sums_quantity:
  "cart_item_ids_unique d \<Longrightarrow> one_line_per_product d \<Longrightarrow>
   ((u_id current_user = user_id \<or> u_role current_user = ''admin'') \<and> 1 \<le> cib_quantity item \<longrightarrow>
      (\<exists>ci d'. add_item_to_cart user_id item current_user d = (Inr ci, d'))) \<and>
   (\<forall>ci d'. add_item_to_cart user_id item current_user d = (Inr ci, d') \<longrightarrow>
      ci_product_id ci = cib_product_id item \<and>
      lines_of d' (ci_cart_id ci) (cib_product_id item) = [ci] \<and>
      ci_quantity ci = quantity_in d (ci_cart_id ci) (cib_product_id item) + cib_quantity item \<and>
      (\<forall>c p. (c, p) \<noteq> (ci_cart_id ci, cib_product_id item) \<longrightarrow> lines_of d' c p = lines_of d c p) \<and>
      (\<forall>again. cib_product_id again = cib_product_id item \<and> 1 \<le> cib_quantity again \<longrightarrow>
         fst (add_item_to_cart user_id again current_user d') =
           Inr (ci\<lparr>ci_quantity := ci_quantity ci + cib_quantity again\<rparr>) \<and>
         lines_of (snd (add_item_to_cart user_id again current_user d'))
           (ci_cart_id ci) (cib_product_id item) =
           [ci\<lparr>ci_quantity := ci_quantity ci + cib_quantity again\<rparr>] \<and>
         length (cart_items (snd (add_item_to_cart user_id again current_user d'))) =
           length (cart_items d'))) \<and>
   ((u_id current_user = user_id \<or> u_role current_user = ''admin'') \<and> cib_quantity item < 1 \<longrightarrow>
      fst (add_item_to_cart user_id item current_user d) =
        Inl (HTTPException 400 ''Quantity must be at least 1'') \<and>
      cart_items (snd (add_item_to_cart user_id item current_user d)) = cart_items d) \<and>
   cart_item_ids_unique (add_items rs d) \<and> one_line_per_product (add_items rs d) \<and>
   length (lines_of (add_items rs d) cart_id product_id) \<le> 1 \<and>
   (quantities_positive d \<longrightarrow> quantities_positive (add_items rs d))"
proof -
  assume ids: "cart_item_ids_unique d" and one: "one_line_per_product d"
  have succeeds: "(u_id current_user = user_id \<or> u_role current_user = ''admin'') \<and>
      1 \<le> cib_quantity item \<longrightarrow>
      (\<exists>ci d'. add_item_to_cart user_id item current_user d = (Inr ci, d'))"
  proof
    assume a: "(u_id current_user = user_id \<or> u_role current_user = ''admin'') \<and>
      1 \<le> cib_quantity item"
    from a have guard: "u_id current_user = user_id \<or> u_role current_user = ''admin''" by simp
    obtain d0 crt where same: "cart_items d0 = cart_items d"
      and cart0: "crud_get_cart d0 (u_id current_user) = Some crt"
      and run: "\<And>it. add_item_to_cart user_id it current_user d = crud_add_cart_item d0 (c_id crt) it"
      using add_item_to_cart_target [OF guard, where d = d] by metis
    from a have "\<exists>ci d'. crud_add_cart_item d0 (c_id crt) item = (Inr ci, d')"
      by (simp add: crud_add_cart_item_def Let_def split: option.splits)
    with run show "\<exists>ci d'. add_item_to_cart user_id item current_user d = (Inr ci, d')" by simp
  qed
  have effect: "\<forall>ci d'. add_item_to_cart user_id item current_user d = (Inr ci, d') \<longrightarrow>
      ci_product_id ci = cib_product_id item \<and>
      lines_of d' (ci_cart_id ci) (cib_product_id item) = [ci] \<and>
      ci_quantity ci = quantity_in d (ci_cart_id ci) (cib_product_id item) + cib_quantity item \<and>
      (\<forall>c p. (c, p) \<noteq> (ci_cart_id ci, cib_product_id item) \<longrightarrow> lines_of d' c p = lines_of d c p) \<and>
      (\<forall>again. cib_product_id again = cib_product_id item \<and> 1 \<le> cib_quantity again \<longrightarrow>
         fst (add_item_to_cart user_id again current_user d') =
           Inr (ci\<lparr>ci_quantity := ci_quantity ci + cib_quantity again\<rparr>) \<and>
         lines_of (snd (add_item_to_cart user_id again current_user d'))
           (ci_cart_id ci) (cib_product_id item) =
           [ci\<lparr>ci_quantity := ci_quantity ci + cib_quantity again\<rparr>] \<and>
         length (cart_items (snd (add_item_to_cart user_id again current_user d'))) =
           length (cart_items d'))"
  proof (intro allI impI)
    fix ci d'
    assume first: "add_item_to_cart user_id item current_user d = (Inr ci, d')"
    from first have guard: "u_id current_user = user_id \<or> u_role current_user = ''admin''"
      by (rule add_item_to_cart_guard)
    obtain d0 crt where same: "cart_items d0 = cart_items d"
      and cart0: "crud_get_cart d0 (u_id current_user) = Some crt"
      and run: "\<And>it. add_item_to_cart user_id it current_user d = crud_add_cart_item d0 (c_id crt) it"
      using add_item_to_cart_target [OF guard, where d = d] by metis
    from same ids one have inv0: "cart_item_ids_unique d0" "one_line_per_product d0"
      by (simp_all add: cart_item_ids_unique_def one_line_per_product_def)
    from run first have ok: "crud_add_cart_item d0 (c_id crt) item = (Inr ci, d')" by simp
    from same have l0: "\<forall>c p. lines_of d0 c p = lines_of d c p"
      and q0: "\<forall>c p. quantity_in d0 c p = quantity_in d c p"
      by (simp_all add: lines_of_def quantity_in_def)
    note eff = crud_add_cart_item_effect [OF inv0 ok]
    from eff have cart_ci: "c_id crt = ci_cart_id ci" by simp
    have a1: "ci_product_id ci = cib_product_id item" using eff by simp
    have a2: "lines_of d' (ci_cart_id ci) (cib_product_id item) = [ci]"
      using eff cart_ci by simp
    have a3: "ci_quantity ci = quantity_in d (ci_cart_id ci) (cib_product_id item) + cib_quantity item"
      using eff cart_ci q0 by simp
    have a4: "\<forall>c p. (c, p) \<noteq> (ci_cart_id ci, cib_product_id item) \<longrightarrow>
        lines_of d' c p = lines_of d c p"
      using eff cart_ci l0 by auto
    have a5: "\<forall>again. cib_product_id again = cib_product_id item \<and> 1 \<le> cib_quantity again \<longrightarrow>
         fst (add_item_to_cart user_id again current_user d') =
           Inr (ci\<lparr>ci_quantity := ci_quantity ci + cib_quantity again\<rparr>) \<and>
         lines_of (snd (add_item_to_cart user_id again current_user d'))
           (ci_cart_id ci) (cib_product_id item) =
           [ci\<lparr>ci_quantity := ci_quantity ci + cib_quantity again\<rparr>] \<and>
         length (cart_items (snd (add_item_to_cart user_id again current_user d'))) =
           length (cart_items d')"
    proof (intro allI impI)
      fix again :: cart_item_base
      assume b: "cib_product_id again = cib_product_id item \<and> 1 \<le> cib_quantity again"
      from b have b1: "cib_product_id again = cib_product_id item" and b2: "1 \<le> cib_quantity again"
        by simp_all
      note again = add_item_to_cart_again [OF ids one first b1 b2]
      from again have r: "add_item_to_cart user_id again current_user d' =
           (Inr (ci\<lparr>ci_quantity := ci_quantity ci + cib_quantity again\<rparr>),
            d'\<lparr>cart_items :=
                 map (\<lambda>x. if ci_id x = ci_id ci
                           then ci\<lparr>ci_quantity := ci_quantity ci + cib_quantity again\<rparr> else x)
                   (cart_items d')\<rparr>)"
        by (rule conjunct1)
      from again have l: "lines_of (snd (add_item_to_cart user_id again current_user d'))
           (ci_cart_id ci) (cib_product_id item) =
           [ci\<lparr>ci_quantity := ci_quantity ci + cib_quantity again\<rparr>]"
        by (rule conjunct2)
      have f: "fst (add_item_to_cart user_id again current_user d') =
           Inr (ci\<lparr>ci_quantity := ci_quantity ci + cib_quantity again\<rparr>)"
        by (simp add: r)
      have n: "length (cart_items (snd (add_item_to_cart user_id again current_user d'))) =
           length (cart_items d')"
        by (simp add: r)
      from f l n
      show "fst (add_item_to_cart user_id again current_user d') =
           Inr (ci\<lparr>ci_quantity := ci_quantity ci + cib_quantity again\<rparr>) \<and>
         lines_of (snd (add_item_to_cart user_id again current_user d'))
           (ci_cart_id ci) (cib_product_id item) =
           [ci\<lparr>ci_quantity := ci_quantity ci + cib_quantity again\<rparr>] \<and>
         length (cart_items (snd (add_item_to_cart user_id again current_user d'))) =
           length (cart_items d')"
        by blast
    qed
    from a1 a2 a3 a4 a5 show "ci_product_id ci = cib_product_id item \<and>
      lines_of d' (ci_cart_id ci) (cib_product_id item) = [ci] \<and>
      ci_quantity ci = quantity_in d (ci_cart_id ci) (cib_product_id item) + cib_quantity item \<and>
      (\<forall>c p. (c, p) \<noteq> (ci_cart_id ci, cib_product_id item) \<longrightarrow> lines_of d' c p = lines_of d c p) \<and>
      (\<forall>again. cib_product_id again = cib_product_id item \<and> 1 \<le> cib_quantity again \<longrightarrow>
         fst (add_item_to_cart user_id again current_user d') =
           Inr (ci\<lparr>ci_quantity := ci_quantity ci + cib_quantity again\<rparr>) \<and>
         lines_of (snd (add_item_to_cart user_id again current_user d'))
           (ci_cart_id ci) (cib_product_id item) =
           [ci\<lparr>ci_quantity := ci_quantity ci + cib_quantity again\<rparr>] \<and>
         length (cart_items (snd (add_item_to_cart user_id again current_user d'))) =
           length (cart_items d'))"
      by blast
  qed
  have refused: "(u_id current_user = user_id \<or> u_role current_user = ''admin'') \<and>
      cib_quantity item < 1 \<longrightarrow>
      fst (add_item_to_cart user_id item current_user d) =
        Inl (HTTPException 400 ''Quantity must be at least 1'') \<and>
      cart_items (snd (add_item_to_cart user_id item current_user d)) = cart_items d"
  proof
    assume a: "(u_id current_user = user_id \<or> u_role current_user = ''admin'') \<and>
      cib_quantity item < 1"
    from a have guard: "u_id current_user = user_id \<or> u_role current_user = ''admin''" by simp
    obtain d0 crt where same: "cart_items d0 = cart_items d"
      and cart0: "crud_get_cart d0 (u_id current_user) = Some crt"
      and run: "\<And>it. add_item_to_cart user_id it current_user d = crud_add_cart_item d0 (c_id crt) it"
      using add_item_to_cart_target [OF guard, where d = d] by metis
    from a run same show "fst (add_item_to_cart user_id item current_user d) =
        Inl (HTTPException 400 ''Quantity must be at least 1'') \<and>
      cart_items (snd (add_item_to_cart user_id item current_user d)) = cart_items d"
      by (simp add: crud_add_cart_item_def)
  qed
  from add_items_inv [OF ids one, of rs]
  have inv: "cart_item_ids_unique (add_items rs d)" "one_line_per_product (add_items rs d)"
    by simp_all
  from inv(2) have "distinct (map (\<lambda>ci. (ci_cart_id ci, ci_product_id ci))
      (cart_items (add_items rs d)))"
    by (simp add: one_line_per_product_def)
  from distinct_key_count [OF this, of "(cart_id, product_id)"]
  have count: "length (lines_of (add_items rs d) cart_id product_id) \<le> 1"
    by (simp add: lines_of_def)
  have pos: "quantities_positive d \<longrightarrow> quantities_positive (add_items rs d)"
    using add_items_positive by blast
  from succeeds effect refused inv count pos show ?thesis by blast
qed

text \<open>
  Alice adds two pens to the three in her cart, and two more; the admin's seven pens in
  another cart are untouched. A request for no pens is refused. The admin's request,
  though it names Alice, reaches the admin's own cart and sums there. Then a sequence of
  six requests, one of them forbidden and one refused, runs on the database.
\<close>

theorem add_item_sums_quantity_witness:
  "cart_item_ids_unique shop2 \<and> one_line_per_product shop2 \<and> quantities_positive shop2 \<and>
   u_id alice = 1 \<and> u_role root = ''admin'' \<and> 1 \<le> cib_quantity two_pens \<and>
   cib_product_id two_pens = 1 \<and> cib_quantity two_pens = 2 \<and> cib_quantity no_pens < 1 \<and>
   quantity_in shop2 1 1 = 3 \<and> lines_of shop2 2 1 = [root_item] \<and>
   add_item_to_cart 1 two_pens alice shop2 =
     (Inr (alice_item\<lparr>ci_quantity := 5\<rparr>),
      shop2\<lparr>cart_items := [alice_item\<lparr>ci_quantity := 5\<rparr>, root_item]\<rparr>) \<and>
   lines_of (shop2\<lparr>cart_items := [alice_item\<lparr>ci_quantity := 5\<rparr>, root_item]\<rparr>) 1 1 =
     [alice_item\<lparr>ci_quantity := 5\<rparr>] \<and>
   lines_of (shop2\<lparr>cart_items := [alice_item\<lparr>ci_quantity := 5\<rparr>, root_item]\<rparr>) 2 1 =
     [root_item] \<and>
   fst (add_item_to_cart 1 two_pens alice
          (shop2\<lparr>cart_items := [alice_item\<lparr>ci_quantity := 5\<rparr>, root_item]\<rparr>)) =
     Inr (alice_item\<lparr>ci_quantity := 7\<rparr>) \<and>
   lines_of (snd (add_item_to_cart 1 two_pens alice
          (shop2\<lparr>cart_items := [alice_item\<lparr>ci_quantity := 5\<rparr>, root_item]\<rparr>))) 1 1 =
     [alice_item\<lparr>ci_quantity := 7\<rparr>] \<and>
   length (cart_items (snd (add_item_to_cart 1 two_pens alice
          (shop2\<lparr>cart_items := [alice_item\<lparr>ci_quantity := 5\<rparr>, root_item]\<rparr>)))) = 2 \<and>
   fst (add_item_to_cart 1 no_pens alice shop2) =
     Inl (HTTPException 400 ''Quantity must be at least 1'') \<and>
   cart_items (snd (add_item_to_cart 1 no_pens alice shop2)) = cart_items shop2 \<and>
   add_item_to_cart 1 two_pens root shop2 =
     (Inr (root_item\<lparr>ci_quantity := 9\<rparr>),
      shop2\<lparr>cart_items := [alice_item, root_item\<lparr>ci_quantity := 9\<rparr>]\<rparr>) \<and>
   quantity_in shop2 2 1 = 7 \<and>
   lines_of (shop2\<lparr>cart_items := [alice_item, root_item\<lparr>ci_quantity := 9\<rparr>]\<rparr>) 2 1 =
     [root_item\<lparr>ci_quantity := 9\<rparr>] \<and>
   cart_item_ids_unique (add_items requests shop2) \<and>
   one_line_per_product (add_items requests shop2) \<and>
   length (lines_of (add_items requests shop2) 1 1) \<le> 1 \<and>
   quantities_positive (add_items requests shop2)"
proof -
  let ?d1 = "shop2\<lparr>cart_items := [alice_item\<lparr>ci_quantity := 5\<rparr>, root_item]\<rparr>"
  have h1: "cart_item_ids_unique shop2"
    by (simp add: cart_item_ids_unique_def example_defs)
  have h2: "one_line_per_product shop2"
    by (simp add: one_line_per_product_def example_defs)
  have h3: "quantities_positive shop2"
    by (simp add: quantities_positive_def example_defs)
  have h4: "u_id alice = 1 \<and> u_role root = ''admin'' \<and> 1 \<le> cib_quantity two_pens \<and>
      cib_product_id two_pens = 1 \<and> cib_quantity two_pens = 2 \<and> cib_quantity no_pens < 1"
    by (simp add: example_defs)
  have h5: "quantity_in shop2 1 1 = 3 \<and> lines_of shop2 2 1 = [root_item]"
    by (simp add: quantity_in_def lines_of_def example_defs)
  have e: "add_item_to_cart 1 two_pens alice shop2 = (Inr (alice_item\<lparr>ci_quantity := 5\<rparr>), ?d1)"
    by (simp add: add_item_to_cart_def crud_get_cart_def crud_add_cart_item_def Let_def
        example_defs)
  have c: "ci_cart_id (alice_item\<lparr>ci_quantity := 5\<rparr>) = 1 \<and>
      ci_quantity (alice_item\<lparr>ci_quantity := 5\<rparr>) = 5 \<and>
      (2::int, 1::int) \<noteq> (1, 1) \<and> length (cart_items ?d1) = 2"
    by (simp add: example_defs)
  note t = add_item_sums_quantity [OF h1 h2, where current_user = alice and user_id = 1
      and item = two_pens and rs = requests and cart_id = 1 and product_id = 1]
  note u = add_item_sums_quantity [OF h1 h2, where current_user = alice and user_id = 1
      and item = no_pens and rs = requests and cart_id = 1 and product_id = 1]
  from t e have eff:
    "lines_of ?d1 (ci_cart_id (alice_item\<lparr>ci_quantity := 5\<rparr>)) (cib_product_id two_pens) =
       [alice_item\<lparr>ci_quantity := 5\<rparr>] \<and>
     (\<forall>c p. (c, p) \<noteq> (ci_cart_id (alice_item\<lparr>ci_quantity := 5\<rparr>), cib_product_id two_pens) \<longrightarrow>
        lines_of ?d1 c p = lines_of shop2 c p) \<and>
     (\<forall>again. cib_product_id again = cib_product_id two_pens \<and> 1 \<le> cib_quantity again \<longrightarrow>
         fst (add_item_to_cart 1 again alice ?d1) =
           Inr (alice_item\<lparr>ci_quantity := 5\<rparr>\<lparr>ci_quantity :=
                  ci_quantity (alice_item\<lparr>ci_quantity := 5\<rparr>) + cib_quantity again\<rparr>) \<and>
         lines_of (snd (add_item_to_cart 1 again alice ?d1))
           (ci_cart_id (alice_item\<lparr>ci_quantity := 5\<rparr>)) (cib_product_id two_pens) =
           [alice_item\<lparr>ci_quantity := 5\<rparr>\<lparr>ci_quantity :=
                  ci_quantity (alice_item\<lparr>ci_quantity := 5\<rparr>) + cib_quantity again\<rparr>] \<and>
         length (cart_items (snd (add_item_to_cart 1 again alice ?d1))) = length (cart_items ?d1))"
    by blast
  from eff h4 c have l1: "lines_of ?d1 1 1 = [alice_item\<lparr>ci_quantity := 5\<rparr>]"
    by simp
  from eff h4 h5 c have l2: "lines_of ?d1 2 1 = [root_item]"
    by simp
  from eff h4 have again: "fst (add_item_to_cart 1 two_pens alice ?d1) =
           Inr (alice_item\<lparr>ci_quantity := 5\<rparr>\<lparr>ci_quantity :=
                  ci_quantity (alice_item\<lparr>ci_quantity := 5\<rparr>) + cib_quantity two_pens\<rparr>) \<and>
         lines_of (snd (add_item_to_cart 1 two_pens alice ?d1))
           (ci_cart_id (alice_item\<lparr>ci_quantity := 5\<rparr>)) (cib_product_id two_pens) =
           [alice_item\<lparr>ci_quantity := 5\<rparr>\<lparr>ci_quantity :=
                  ci_quantity (alice_item\<lparr>ci_quantity := 5\<rparr>) + cib_quantity two_pens\<rparr>] \<and>
         length (cart_items (snd (add_item_to_cart 1 two_pens alice ?d1))) = length (cart_items ?d1)"
    by blast
  from again h4 c have a1: "fst (add_item_to_cart 1 two_pens alice ?d1) =
      Inr (alice_item\<lparr>ci_quantity := 7\<rparr>)"
    and a2: "lines_of (snd (add_item_to_cart 1 two_pens alice ?d1)) 1 1 =
      [alice_item\<lparr>ci_quantity := 7\<rparr>]"
    and a3: "length (cart_items (snd (add_item_to_cart 1 two_pens alice ?d1))) = 2"
    by simp_all
  from u h4 have r: "fst (add_item_to_cart 1 no_pens alice shop2) =
      Inl (HTTPException 400 ''Quantity must be at least 1'') \<and>
     cart_items (snd (add_item_to_cart 1 no_pens alice shop2)) = cart_items shop2"
    by blast
  from t h3 have s: "cart_item_ids_unique (add_items requests shop2) \<and>
     one_line_per_product (add_items requests shop2) \<and>
     length (lines_of (add_items requests shop2) 1 1) \<le> 1 \<and>
     quantities_positive (add_items requests shop2)"
    by blast
  have e': "add_item_to_cart 1 two_pens root shop2 =
      (Inr (root_item\<lparr>ci_quantity := 9\<rparr>),
       shop2\<lparr>cart_items := [alice_item, root_item\<lparr>ci_quantity := 9\<rparr>]\<rparr>)"
    by (simp add: add_item_to_cart_def crud_get_cart_def crud_add_cart_item_def Let_def
        example_defs)
  have c': "ci_cart_id (root_item\<lparr>ci_quantity := 9\<rparr>) = 2 \<and> quantity_in shop2 2 1 = 7"
    by (simp add: quantity_in_def lines_of_def example_defs)
  note v = add_item_sums_quantity [OF h1 h2, where current_user = root and user_id = 1
      and item = two_pens and rs = requests and cart_id = 1 and product_id = 1]
  from v e' have "lines_of (shop2\<lparr>cart_items := [alice_item, root_item\<lparr>ci_quantity := 9\<rparr>]\<rparr>)
      (ci_cart_id (root_item\<lparr>ci_quantity := 9\<rparr>)) (cib_product_id two_pens) =
      [root_item\<lparr>ci_quantity := 9\<rparr>]"
    by blast
  with h4 c' have l3: "lines_of (shop2\<lparr>cart_items := [alice_item, root_item\<lparr>ci_quantity := 9\<rparr>]\<rparr>)
      2 1 = [root_item\<lparr>ci_quantity := 9\<rparr>]"
    by simp
  from c' have q7: "quantity_in shop2 2 1 = 7" by simp
  from h1 h2 h3 h4 h5 e l1 l2 a1 a2 a3 r s e' q7 l3 show ?thesis by blast
qed

subsection \<open>Requests on another user's resources\<close>

text \<open>
  A requester who is not an admin and names a resource of another user gets 403 from the
  user update and delete, the role change, the address create and update, the cart read
  (which creates the cart), the add-item request, the order creation, and, for a cart
  item in the other user's cart or a wishlist entry of the other user, from the cart-item
  update and the wishlist delete. The cart-item delete answers 403 when the cart is
  loaded eagerly and raises when it is loaded lazily.
\<close>

lemma non_owner_forbidden_elsewhere:
  "u_role current_user \<noteq> ''admin'' \<Longrightarrow> owner \<noteq> u_id current_user \<Longrightarrow>
   fst (update_user owner upd current_user d) =
     Inl (HTTPException 403 ''You are not authorized to modify this user'') \<and>
   fst (delete_user owner current_user d) =
     Inl (HTTPException 403 ''You are not authorized to delete this user'') \<and>
   (\<exists>why. fst (admin_update_user_role owner upd current_user d) = Inl (HTTPException 403 why)) \<and>
   fst (add_address owner addr current_user d) =
     Inl (HTTPException 403 ''You are not authorized for this action'') \<and>
   fst (update_address owner addr current_user d) =
     Inl (HTTPException 403 ''You are not authorized to update another user's address'') \<and>
   fst (get_cart owner current_user d) =
     Inl (HTTPException 403 ''You are not authorized to access this cart'') \<and>
   fst (add_item_to_cart owner item current_user d) =
     Inl (HTTPException 403 ''You are not authorized to access this cart'') \<and>
   fst (create_order_from_cart owner current_user d) =
     Inl (HTTPException 403 ''Not authorized'') \<and>
   (\<forall>it crt. find (\<lambda>ci. ci_id ci = cart_item_id) (cart_items d) = Some it \<and>
       item_cart d it = Some crt \<and> c_user_id crt = owner \<longrightarrow>
       fst (update_cart_item cart_item_id quantity current_user d) =
         Inl (HTTPException 403 ''Not allowed to modify this item'') \<and>
       fst (delete_cart_item Eager cart_item_id current_user d) =
         Inl (HTTPException 403 ''Not allowed to delete this item'') \<and>
       fst (delete_cart_item Lazy cart_item_id current_user d) = Inl DetachedInstanceError) \<and>
   (\<forall>w. find (\<lambda>w. w_id w = wishlist_id) (wishlists d) = Some w \<and> w_user_id w = owner \<longrightarrow>
       fst (remove_wishlist_endpoint wishlist_id current_user d) =
         Inl (HTTPException 403 ''Not allowed''))"
proof (intro conjI allI impI)
  assume r: "u_role current_user \<noteq> ''admin''" and o: "owner \<noteq> u_id current_user"
  show "fst (update_user owner upd current_user d) =
     Inl (HTTPException 403 ''You are not authorized to modify this user'')"
    using r o by (simp add: update_user_def)
  show "fst (delete_user owner current_user d) =
     Inl (HTTPException 403 ''You are not authorized to delete this user'')"
    using r o by (simp add: delete_user_def)
  show "\<exists>why. fst (admin_update_user_role owner upd current_user d) = Inl (HTTPException 403 why)"
    using r by (simp add: admin_update_user_role_def get_current_admin_def)
  show "fst (add_address owner addr current_user d) =
     Inl (HTTPException 403 ''You are not authorized for this action'')"
    using r o by (simp add: add_address_def)
  show "fst (update_address owner addr current_user d) =
     Inl (HTTPException 403 ''You are not authorized to update another user's address'')"
    using r o by (simp add: update_address_def)
  show "fst (get_cart owner current_user d) =
     Inl (HTTPException 403 ''You are not authorized to access this cart'')"
    using r o by (simp add: get_cart_def)
  show "fst (add_item_to_cart owner item current_user d) =
     Inl (HTTPException 403 ''You are not authorized to access this cart'')"
    using r o by (simp add: add_item_to_cart_def)
  show "fst (create_order_from_cart owner current_user d) =
     Inl (HTTPException 403 ''Not authorized'')"
    using r o by (simp add: create_order_from_cart_def)
  {
    fix it crt
    assume a: "find (\<lambda>ci. ci_id ci = cart_item_id) (cart_items d) = Some it \<and>
       item_cart d it = Some crt \<and> c_user_id crt = owner"
    show "fst (update_cart_item cart_item_id quantity current_user d) =
         Inl (HTTPException 403 ''Not allowed to modify this item'')"
      using a r o
      by (simp add: update_cart_item_def crud_update_cart_item_def item_cart_def Let_def)
    show "fst (delete_cart_item Eager cart_item_id current_user d) =
         Inl (HTTPException 403 ''Not allowed to delete this item'')"
      using a r o
      by (simp add: delete_cart_item_def crud_remove_cart_item_def item_cart_def)
    show "fst (delete_cart_item Lazy cart_item_id current_user d) = Inl DetachedInstanceError"
      using a by (simp add: delete_cart_item_def crud_remove_cart_item_def)
  }
  {
    fix w
    assume a: "find (\<lambda>w. w_id w = wishlist_id) (wishlists d) = Some w \<and> w_user_id w = owner"
    show "fst (remove_wishlist_endpoint wishlist_id current_user d) =
         Inl (HTTPException 403 ''Not allowed'')"
      using a r o
      by (simp add: remove_wishlist_endpoint_def crud_remove_from_wishlist_def)
  }
qed

text \<open>
  C5. Bob, a customer, asks to delete Alice's cart item. The handler lets \<^verbatim>\<open>crud\<close>
  delete the row and only then reads \<^verbatim>\<open>item.cart\<close> for the ownership check. With the
  relationship loaded lazily, as SQLAlchemy does by default, that read raises
  \<^verbatim>\<open>DetachedInstanceError\<close>: the answer is a 500, not the 403 a non-owner is due, and the
  item is deleted. With the relationship loaded eagerly the answer is 403. Bob's other
  mutating requests on Alice's user record, addresses, cart, orders and wishlist entry
  are all answered 403.
\<close>

theorem non_owner_delete_raises:
  "u_role bob \<noteq> ''admin'' \<and> u_id bob \<noteq> 1 \<and>
   find (\<lambda>ci. ci_id ci = 1) (cart_items shop) = Some alice_item \<and>
   item_cart shop alice_item = Some alice_cart \<and> c_user_id alice_cart = 1 \<and>
   delete_cart_item Lazy 1 bob shop = (Inl DetachedInstanceError, shop\<lparr>cart_items := []\<rparr>) \<and>
   delete_cart_item Eager 1 bob shop =
     (Inl (HTTPException 403 ''Not allowed to delete this item''), shop\<lparr>cart_items := []\<rparr>) \<and>
   fst (update_cart_item 1 99 bob shop) =
     Inl (HTTPException 403 ''Not allowed to modify this item'') \<and>
   fst (remove_wishlist_endpoint 1 bob shop) = Inl (HTTPException 403 ''Not allowed'') \<and>
   fst (update_user 1 \<lparr>upd_role = Some ''seller''\<rparr> bob shop) =
     Inl (HTTPException 403 ''You are not authorized to modify this user'') \<and>
   fst (delete_user 1 bob shop) =
     Inl (HTTPException 403 ''You are not authorized to delete this user'') \<and>
   fst (add_address 1 ''1 Main Street'' bob shop) =
     Inl (HTTPException 403 ''You are not authorized for this action'') \<and>
   fst (update_address 1 ''1 Main Street'' bob shop) =
     Inl (HTTPException 403 ''You are not authorized to update another user's address'') \<and>
   fst (get_cart 1 bob shop) =
     Inl (HTTPException 403 ''You are not authorized to access this cart'') \<and>
   fst (add_item_to_cart 1 two_pens bob shop) =
     Inl (HTTPException 403 ''You are not authorized to access this cart'') \<and>
   fst (create_order_from_cart 1 bob shop) = Inl (HTTPException 403 ''Not authorized'')"
proof -
  have h1: "u_role bob \<noteq> ''admin''" by (simp add: bob_def)
  have h2: "(1::int) \<noteq> u_id bob" by (simp add: bob_def)
  have h3: "find (\<lambda>ci. ci_id ci = 1) (cart_items shop) = Some alice_item \<and>
      item_cart shop alice_item = Some alice_cart \<and> c_user_id alice_cart = 1"
    by (simp add: item_cart_def example_defs)
  have h4: "find (\<lambda>w. w_id w = 1) (wishlists shop) = Some alice_wish \<and> w_user_id alice_wish = 1"
    by (simp add: example_defs)
  have e: "delete_cart_item Lazy 1 bob shop = (Inl DetachedInstanceError, shop\<lparr>cart_items := []\<rparr>) \<and>
      delete_cart_item Eager 1 bob shop =
        (Inl (HTTPException 403 ''Not allowed to delete this item''), shop\<lparr>cart_items := []\<rparr>)"
    by (simp add: delete_cart_item_def crud_remove_cart_item_def item_cart_def example_defs)
  have h2': "u_id bob \<noteq> 1" using h2 by simp
  show ?thesis
    using h1 h2' h3 h4 e
      non_owner_forbidden_elsewhere [OF h1 h2, of "\<lparr>upd_role = Some ''seller''\<rparr>" shop
        "''1 Main Street''" two_pens 1 99 1]
    by blast
qed

subsection \<open>Another seller's product looks absent\<close>

text \<open>
  C6. For a requester with the role seller, \<^verbatim>\<open>PUT\<close> and \<^verbatim>\<open>DELETE\<close> on
  \<^verbatim>\<open>/seller/products/{id}\<close> answer 404 with the same detail, and leave the database as
  it was, both when no product has the id and when the product belongs to someone else.
  The two responses are equal, and they are 404 and not 403.
\<close>

theorem foreign_product_looks_absent:
  "u_role seller = ''seller'' \<Longrightarrow>
   find (\<lambda>p. p_id p = product_id) (products d1) = None \<Longrightarrow>
   find (\<lambda>p. p_id p = product_id) (products d2) = Some p \<Longrightarrow>
   p_seller_id p \<noteq> Some (u_id seller) \<Longrightarrow>
   seller_update_product product_id product_update seller d1 =
     (Inl (HTTPException 404 ''Product not found or not authorized''), d1) \<and>
   seller_update_product product_id product_update seller d2 =
     (Inl (HTTPException 404 ''Product not found or not authorized''), d2) \<and>
   seller_delete_product product_id seller d1 =
     (Inl (HTTPException 404 ''Product not found or not authorized''), d1) \<and>
   seller_delete_product product_id seller d2 =
     (Inl (HTTPException 404 ''Product not found or not authorized''), d2) \<and>
   fst (seller_update_product product_id product_update seller d1) =
     fst (seller_update_product product_id product_update seller d2) \<and>
   fst (seller_delete_product product_id seller d1) =
     fst (seller_delete_product product_id seller d2)"
  by (simp add: seller_update_product_def seller_delete_product_def get_current_seller_def
      crud_update_product_def crud_delete_product_def)

text \<open>
  Tom, a seller, names product 1: on the empty database, and on the database where it
  is Sam's pen.
\<close>

theorem foreign_product_looks_absent_witness:
  "u_role tom = ''seller'' \<and>
   find (\<lambda>p. p_id p = 1) (products empty_db) = None \<and>
   find (\<lambda>p. p_id p = 1) (products shop) = Some pen \<and>
   p_seller_id pen = Some (u_id sam) \<and> p_seller_id pen \<noteq> Some (u_id tom) \<and>
   seller_update_product 1 pen_body tom empty_db =
     (Inl (HTTPException 404 ''Product not found or not authorized''), empty_db) \<and>
   seller_update_product 1 pen_body tom shop =
     (Inl (HTTPException 404 ''Product not found or not authorized''), shop) \<and>
   seller_delete_product 1 tom empty_db =
     (Inl (HTTPException 404 ''Product not found or not authorized''), empty_db) \<and>
   seller_delete_product 1 tom shop =
     (Inl (HTTPException 404 ''Product not found or not authorized''), shop)"
proof -
  have h1: "u_role tom = ''seller''" by (simp add: tom_def)
  have h2: "find (\<lambda>p. p_id p = 1) (products empty_db) = None" by (simp add: empty_db_def)
  have h3: "find (\<lambda>p. p_id p = 1) (products shop) = Some pen" by (simp add: shop_def pen_def)
  have h4: "p_seller_id pen \<noteq> Some (u_id tom)" by (simp add: pen_def tom_def)
  have h5: "p_seller_id pen = Some (u_id sam)" by (simp add: pen_def sam_def)
  show ?thesis
    using h1 h2 h3 h4 h5 foreign_product_looks_absent [OF h1 h2 h3 h4, of pen_body]
    by blast
qed

subsection \<open>Registration\<close>

text \<open>
  C7. When some stored user has the email of the request, \<^verbatim>\<open>POST /users/\<close> answers 400
  and leaves the database as it was. When no stored user has it, the request stores one
  new user, with that email, the role customer and the hash of the password. In both
  cases emails that were pairwise different stay pairwise different.
\<close>

theorem create_user_email_taken:
  "(\<forall>u. u \<in> set (users d) \<and> u_email u = uc_email usr \<longrightarrow>
      create_user get_password_hash usr d =
        (Inl (HTTPException 400 ''Email already registered''), d)) \<and>
   ((\<forall>u \<in> set (users d). u_email u \<noteq> uc_email usr) \<longrightarrow>
      (\<exists>new. create_user get_password_hash usr d = (Inr new, d\<lparr>users := users d @ [new]\<rparr>) \<and>
         u_email new = uc_email usr \<and> u_role new = ''customer'' \<and>
         u_password new = get_password_hash (uc_password usr))) \<and>
   (distinct (map u_email (users d)) \<longrightarrow>
      distinct (map u_email (users (snd (create_user get_password_hash usr d)))))"
proof (intro conjI allI impI)
  fix u assume "u \<in> set (users d) \<and> u_email u = uc_email usr"
  then have "find (\<lambda>u. u_email u = uc_email usr) (users d) \<noteq> None"
    by (auto simp: find_None_iff)
  then show "create_user get_password_hash usr d =
        (Inl (HTTPException 400 ''Email already registered''), d)"
    by (auto simp: create_user_def crud_get_user_by_email_def)
next
  assume "\<forall>u \<in> set (users d). u_email u \<noteq> uc_email usr"
  then have "find (\<lambda>u. u_email u = uc_email usr) (users d) = None"
    by (auto simp: find_None_iff)
  then show "\<exists>new. create_user get_password_hash usr d = (Inr new, d\<lparr>users := users d @ [new]\<rparr>) \<and>
         u_email new = uc_email usr \<and> u_role new = ''customer'' \<and>
         u_password new = get_password_hash (uc_password usr)"
    by (simp add: create_user_def crud_get_user_by_email_def crud_create_user_def Let_def)
next
  assume dist: "distinct (map u_email (users d))"
  show "distinct (map u_email (users (snd (create_user get_password_hash usr d))))"
  proof (cases "find (\<lambda>u. u_email u = uc_email usr) (users d)")
    case None
    then have "uc_email usr \<notin> u_email ` set (users d)"
      by (auto simp: find_None_iff)
    with None dist show ?thesis
      by (simp add: create_user_def crud_get_user_by_email_def crud_create_user_def Let_def)
  next
    case (Some a)
    with dist show ?thesis
      by (simp add: create_user_def crud_get_user_by_email_def)
  qed
qed

text \<open>
  A second registration with Alice's email, and Carol's first one.
\<close>

theorem create_user_email_taken_witness:
  "alice \<in> set (users shop) \<and> u_email alice = uc_email alice_signup \<and>
   create_user toy_hash alice_signup shop =
     (Inl (HTTPException 400 ''Email already registered''), shop) \<and>
   uc_email carol_signup \<notin> set (map u_email (users shop)) \<and>
   (\<exists>new. create_user toy_hash carol_signup shop = (Inr new, shop\<lparr>users := users shop @ [new]\<rparr>) \<and>
      u_email new = uc_email carol_signup \<and> u_role new = ''customer'' \<and>
      u_password new = toy_hash (uc_password carol_signup)) \<and>
   distinct (map u_email (users shop)) \<and>
   distinct (map u_email (users (snd (create_user toy_hash carol_signup shop))))"
proof -
  have h1: "alice \<in> set (users shop) \<and> u_email alice = uc_email alice_signup"
    by (simp add: shop_def alice_def alice_signup_def)
  have h2: "\<forall>u \<in> set (users shop). u_email u \<noteq> uc_email carol_signup"
    by (simp add: example_defs)
  have h3: "distinct (map u_email (users shop))"
    by (simp add: example_defs)
  have h4: "uc_email carol_signup \<notin> set (map u_email (users shop))"
    by (simp add: example_defs)
  show ?thesis
    using h1 h2 h3 h4 create_user_email_taken [of shop alice_signup toy_hash]
      create_user_email_taken [of shop carol_signup toy_hash]
    by blast
qed

subsection \<open>Login\<close>

text \<open>
  C8. Emails being unique, \<^verbatim>\<open>POST /login\<close> with a stored user's email and a password
  that verifies against the stored hash returns a bearer token whose payload is the
  user's id, email and role and whose expiry is 60 minutes after the request; with a
  password that does not verify, or with an email no stored user has, it answers 401. The
  database is left as it was.
\<close>

theorem login_token:
  "(\<forall>u. distinct (map u_email (users d)) \<and> u \<in> set (users d) \<and>
        verify_password password (u_password u) \<longrightarrow>
      login verify_password now (u_email u) password d =
        (Inr \<lparr>access_token =
                 \<lparr>tok_data = \<lparr>td_user_id = u_id u, td_email = u_email u, td_role = u_role u\<rparr>,
                    tok_exp = now + 60\<rparr>,
               token_type = ''bearer''\<rparr>, d)) \<and>
   (\<forall>u. distinct (map u_email (users d)) \<and> u \<in> set (users d) \<and>
        \<not> verify_password password (u_password u) \<longrightarrow>
      login verify_password now (u_email u) password d =
        (Inl (HTTPException 401 ''Incorrect email or password''), d)) \<and>
   ((\<forall>u \<in> set (users d). u_email u \<noteq> username) \<longrightarrow>
      login verify_password now username password d =
        (Inl (HTTPException 401 ''Incorrect email or password''), d))"
proof (intro conjI allI impI)
  fix u
  assume a: "distinct (map u_email (users d)) \<and> u \<in> set (users d) \<and>
        verify_password password (u_password u)"
  then have "crud_get_user_by_email d (u_email u) = Some u"
    by (simp add: crud_get_user_by_email_def find_distinct_key)
  with a show "login verify_password now (u_email u) password d =
        (Inr \<lparr>access_token =
                 \<lparr>tok_data = \<lparr>td_user_id = u_id u, td_email = u_email u, td_role = u_role u\<rparr>,
                    tok_exp = now + 60\<rparr>,
               token_type = ''bearer''\<rparr>, d)"
    by (simp add: login_def create_access_token_def)
next
  fix u
  assume a: "distinct (map u_email (users d)) \<and> u \<in> set (users d) \<and>
        \<not> verify_password password (u_password u)"
  then have "crud_get_user_by_email d (u_email u) = Some u"
    by (simp add: crud_get_user_by_email_def find_distinct_key)
  with a show "login verify_password now (u_email u) password d =
        (Inl (HTTPException 401 ''Incorrect email or password''), d)"
    by (simp add: login_def)
next
  assume "\<forall>u \<in> set (users d). u_email u \<noteq> username"
  then have "crud_get_user_by_email d username = None"
    by (auto simp: crud_get_user_by_email_def find_None_iff)
  then show "login verify_password now username password d =
        (Inl (HTTPException 401 ''Incorrect email or password''), d)"
    by (simp add: login_def)
qed

text \<open>
  Alice logs in at minute 1000 with the right password, with a wrong one, and somebody
  tries an unknown email.
\<close>

theorem login_token_witness:
  "distinct (map u_email (users shop)) \<and> alice \<in> set (users shop) \<and>
   toy_verify ''a'' (u_password alice) \<and> \<not> toy_verify ''b'' (u_password alice) \<and>
   ''carol@example.com'' \<notin> set (map u_email (users shop)) \<and>
   login toy_verify 1000 ''alice@example.com'' ''a'' shop =
     (Inr \<lparr>access_token =
              \<lparr>tok_data = \<lparr>td_user_id = 1, td_email = ''alice@example.com'', td_role = ''customer''\<rparr>,
                 tok_exp = 1060\<rparr>,
            token_type = ''bearer''\<rparr>, shop) \<and>
   login toy_verify 1000 ''alice@example.com'' ''b'' shop =
     (Inl (HTTPException 401 ''Incorrect email or password''), shop) \<and>
   login toy_verify 1000 ''carol@example.com'' ''a'' shop =
     (Inl (HTTPException 401 ''Incorrect email or password''), shop)"
proof -
  have h1: "distinct (map u_email (users shop)) \<and> alice \<in> set (users shop)"
    by (simp add: example_defs)
  have h2: "toy_verify ''a'' (u_password alice) \<and> \<not> toy_verify ''b'' (u_password alice)"
    by (simp add: example_defs)
  have h3: "\<forall>u \<in> set (users shop). u_email u \<noteq> ''carol@example.com''"
    by (simp add: example_defs)
  have a: "u_id alice = 1 \<and> u_email alice = ''alice@example.com'' \<and> u_role alice = ''customer''"
    by (simp add: alice_def)
  have t1: "login toy_verify 1000 (u_email alice) ''a'' shop =
        (Inr \<lparr>access_token =
                 \<lparr>tok_data = \<lparr>td_user_id = u_id alice, td_email = u_email alice,
                               td_role = u_role alice\<rparr>,
                    tok_exp = 1000 + 60\<rparr>,
               token_type = ''bearer''\<rparr>, shop)"
    using login_token [of shop toy_verify "''a''" 1000] h1 h2 by blast
  have t2: "login toy_verify 1000 (u_email alice) ''b'' shop =
        (Inl (HTTPException 401 ''Incorrect email or password''), shop)"
    using login_token [of shop toy_verify "''b''" 1000] h1 h2 by blast
  have t3: "login toy_verify 1000 ''carol@example.com'' ''a'' shop =
        (Inl (HTTPException 401 ''Incorrect email or password''), shop)"
    using login_token [of shop toy_verify "''a''" 1000 "''carol@example.com''"] h3 by blast
  have h4: "''carol@example.com'' \<notin> set (map u_email (users shop))"
    by (simp add: example_defs)
  show ?thesis using h1 h2 h4 t1 t2 t3 a by simp
qed

subsection \<open>The seller of a new product\<close>

text \<open>
  \<^verbatim>\<open>POST /products/\<close> by a seller writes the seller's id into the body and passes it as
  the argument as well, so the product is stored with the requester as its seller
  whichever of the two \<^verbatim>\<open>crud.create_product\<close> stores.
\<close>

lemma create_product_by_seller:
  "u_role current_user = ''seller'' \<Longrightarrow>
   stored_seller_id (Some (u_id current_user)) (Some (u_id current_user)) = Some (u_id current_user) \<Longrightarrow>
   \<exists>p. create_product stored_seller_id prd current_user d =
          (Inr p, d\<lparr>products := products d @ [p]\<rparr>) \<and>
        p_seller_id p = Some (u_id current_user)"
  by (simp add: create_product_def crud_create_product_def Let_def)

text \<open>
  For a requester who is not a seller the argument is \<^verbatim>\<open>None\<close> and the body keeps the
  \<^verbatim>\<open>seller_id\<close> it was sent with. Alice, a customer, sends a body that names seller 4:
  the product has no seller if \<^verbatim>\<open>crud.create_product\<close> stores the argument, and seller
  4 if it falls back on the body. For Tom, a seller, both give Tom.
\<close>

lemma create_product_by_non_seller_open:
  "u_role alice \<noteq> ''seller'' \<and> pb_seller_id pen_body = Some 4 \<and>
   fst (create_product argument_only pen_body alice shop) =
     Inr \<lparr>p_id = 2, p_name = ''pen'', p_price = 6, p_category_id = 1, p_seller_id = None\<rparr> \<and>
   fst (create_product argument_else_body pen_body alice shop) =
     Inr \<lparr>p_id = 2, p_name = ''pen'', p_price = 6, p_category_id = 1, p_seller_id = Some 4\<rparr> \<and>
   fst (create_product argument_only pen_body tom shop) =
     Inr \<lparr>p_id = 2, p_name = ''pen'', p_price = 6, p_category_id = 1, p_seller_id = Some 5\<rparr> \<and>
   fst (create_product argument_else_body pen_body tom shop) =
     Inr \<lparr>p_id = 2, p_name = ''pen'', p_price = 6, p_category_id = 1, p_seller_id = Some 5\<rparr>"
  by (simp add: create_product_def crud_create_product_def Let_def next_id_def
      argument_only_def argument_else_body_def example_defs)

subsection \<open>The ownership check of the user endpoints comes before the lookup\<close>

text \<open>
  C10. In \<^verbatim>\<open>PUT /users/{id}\<close> and \<^verbatim>\<open>DELETE /users/{id}\<close> the ownership check is made
  before the user is looked up. A requester who is not an admin and names an id other
  than their own gets 403 and the database is left as it was, whatever the database
  holds; so two runs that differ only in the database (in particular in whether a user
  with that id exists) give the same response.
\<close>

theorem user_forbidden_before_lookup:
  "user_id \<noteq> u_id current_user \<Longrightarrow> u_role current_user \<noteq> ''admin'' \<Longrightarrow>
   update_user user_id upd current_user d1 =
     (Inl (HTTPException 403 ''You are not authorized to modify this user''), d1) \<and>
   delete_user user_id current_user d1 =
     (Inl (HTTPException 403 ''You are not authorized to delete this user''), d1) \<and>
   fst (update_user user_id upd current_user d1) = fst (update_user user_id upd current_user d2) \<and>
   fst (delete_user user_id current_user d1) = fst (delete_user user_id current_user d2)"
  by (simp add: update_user_def delete_user_def)

text \<open>Bob, a customer, names Alice's id: once on a database that holds Alice, once on
  the empty database.\<close>

theorem user_forbidden_before_lookup_witness:
  "(1::int) \<noteq> u_id bob \<and> u_role bob \<noteq> ''admin'' \<and>
   crud_get_user shop 1 = Some alice \<and> crud_get_user empty_db 1 = None \<and>
   update_user 1 \<lparr>upd_role = Some ''admin''\<rparr> bob shop =
     (Inl (HTTPException 403 ''You are not authorized to modify this user''), shop) \<and>
   delete_user 1 bob shop =
     (Inl (HTTPException 403 ''You are not authorized to delete this user''), shop) \<and>
   fst (update_user 1 \<lparr>upd_role = Some ''admin''\<rparr> bob shop) =
     fst (update_user 1 \<lparr>upd_role = Some ''admin''\<rparr> bob empty_db) \<and>
   fst (delete_user 1 bob shop) = fst (delete_user 1 bob empty_db)"
proof -
  have h1: "(1::int) \<noteq> u_id bob" by (simp add: bob_def)
  have h2: "u_role bob \<noteq> ''admin''" by (simp add: bob_def)
  have h3: "crud_get_user shop 1 = Some alice \<and> crud_get_user empty_db 1 = None"
    by (simp add: crud_get_user_def shop_def empty_db_def alice_def)
  show ?thesis
    using h1 h2 h3
      user_forbidden_before_lookup [OF h1 h2, of "\<lparr>upd_role = Some ''admin''\<rparr>" shop empty_db]
    by blast
qed

end
